theory Spec2Isabelle
  imports Main "HOL-Library.Word"
begin

section \<open>Peer Directory and beacon receive path\<close>

text \<open>
  Source: \<^verbatim>\<open>esp32-swarm-firmware.c\<close>, class \<^verbatim>\<open>SwarmIntelligenceNode\<close>.
  Bytes are 8-bit words. A C \<^verbatim>\<open>float\<close> is only ever copied by \<^verbatim>\<open>memcpy\<close> in
  this code, so a float is represented by its 32-bit pattern. The fixed-size C arrays
  are lists; the directory \<^verbatim>\<open>peers[MAX_PEERS]\<close> is a list whose length is
  \<open>MAX_PEERS\<close>, which the theorems state as a hypothesis on the initial directory.
\<close>

type_synonym byte = "8 word"

definition NODE_ID_LENGTH :: nat where
  "NODE_ID_LENGTH = 6"

definition MAX_PEERS :: nat where
  "MAX_PEERS = 20"

definition AI_MODEL_OUTPUT_SIZE :: nat where
  "AI_MODEL_OUTPUT_SIZE = 32"

record SwarmPeer =
  mac_address :: "byte list"
  rssi :: "8 word"
  last_seen :: "32 word"
  is_active :: bool
  capabilities :: "32 word list"

text \<open>
  The field \<^verbatim>\<open>capabilities\<close> of the packet is named \<open>beacon_capabilities\<close> here,
  since a record field name cannot be shared with \<open>SwarmPeer\<close>.
\<close>

record BeaconPacket =
  sender_id :: "byte list"
  beacon_capabilities :: "32 word list"
  timestamp :: "32 word"

text \<open>
  \<^verbatim>\<open>memcmp(a, b, n) == 0\<close> compares the first \<open>n\<close> elements;
  \<^verbatim>\<open>memcpy(dst, src, n)\<close> on arrays overwrites the first \<open>n\<close> elements of \<open>dst\<close>.
  Counts are in elements: \<^verbatim>\<open>sizeof(beacon.capabilities)\<close> bytes are
  \<open>AI_MODEL_OUTPUT_SIZE\<close> floats.
\<close>

definition memcmp_eq :: "byte list \<Rightarrow> byte list \<Rightarrow> nat \<Rightarrow> bool" where
  "memcmp_eq a b n = (take n a = take n b)"

definition memcpy_array :: "'a list \<Rightarrow> 'a list \<Rightarrow> nat \<Rightarrow> 'a list" where
  "memcpy_array dst src n = take n src @ drop n dst"

text \<open>
  The node state that the receive path touches: the peer table, and the lines written by
  \<^verbatim>\<open>ESP_LOGI\<close> at the end of \<^verbatim>\<open>processBeacon\<close> (one event per call, carrying the six
  identity bytes that the format string prints). The node's own identity, interpreter and
  tensor arena are not read or written by the receive path.
\<close>

datatype log_event = BeaconReceivedFrom "byte list"

record SwarmIntelligenceNode =
  peers :: "SwarmPeer list"
  esp_log :: "log_event list"

text \<open>
  The three assignments made to a matching slot in the first loop, and the four made to a
  free slot in the second loop. Neither touches \<open>rssi\<close>; the first leaves
  \<open>mac_address\<close> as it is.
\<close>

definition update_slot :: "BeaconPacket \<Rightarrow> SwarmPeer \<Rightarrow> SwarmPeer" where
  "update_slot beacon p = p\<lparr>
     last_seen := timestamp beacon,
     capabilities := memcpy_array (capabilities p) (beacon_capabilities beacon) AI_MODEL_OUTPUT_SIZE,
     is_active := True\<rparr>"

definition populate_slot :: "BeaconPacket \<Rightarrow> SwarmPeer \<Rightarrow> SwarmPeer" where
  "populate_slot beacon p = p\<lparr>
     mac_address := memcpy_array (mac_address p) (sender_id beacon) NODE_ID_LENGTH,
     last_seen := timestamp beacon,
     capabilities := memcpy_array (capabilities p) (beacon_capabilities beacon) AI_MODEL_OUTPUT_SIZE,
     is_active := True\<rparr>"

text \<open>
  First loop of \<^verbatim>\<open>processBeacon\<close>: scan \<open>i = 0 .. MAX_PEERS - 1\<close> for a slot whose
  \<^verbatim>\<open>mac_address\<close> equals the sender identity (the active flag is not consulted); update
  that slot and \<^verbatim>\<open>break\<close>. The result carries the flag \<^verbatim>\<open>found\<close>.
\<close>

function processBeacon_update :: "BeaconPacket \<Rightarrow> nat \<Rightarrow> SwarmPeer list \<Rightarrow> bool \<times> SwarmPeer list" where
  "processBeacon_update beacon i ps =
     (if i < MAX_PEERS then
        (if memcmp_eq (mac_address (ps ! i)) (sender_id beacon) NODE_ID_LENGTH then
           (True, ps[i := update_slot beacon (ps ! i)])
         else processBeacon_update beacon (Suc i) ps)
      else (False, ps))"
  by pat_completeness auto
termination
  by (relation "measure (\<lambda>(beacon, i, ps). MAX_PEERS - i)") auto

declare processBeacon_update.simps [simp del]

text \<open>
  Second loop, run only when nothing was found: populate the first slot that is not
  active, and \<^verbatim>\<open>break\<close>. When no slot is inactive the loop ends without a write.
\<close>

function processBeacon_insert :: "BeaconPacket \<Rightarrow> nat \<Rightarrow> SwarmPeer list \<Rightarrow> SwarmPeer list" where
  "processBeacon_insert beacon i ps =
     (if i < MAX_PEERS then
        (if \<not> is_active (ps ! i) then
           ps[i := populate_slot beacon (ps ! i)]
         else processBeacon_insert beacon (Suc i) ps)
      else ps)"
  by pat_completeness auto
termination
  by (relation "measure (\<lambda>(beacon, i, ps). MAX_PEERS - i)") auto

declare processBeacon_insert.simps [simp del]

definition processBeacon :: "BeaconPacket \<Rightarrow> SwarmIntelligenceNode \<Rightarrow> SwarmIntelligenceNode" where
  "processBeacon beacon node =
     (let (found, ps) = processBeacon_update beacon 0 (peers node);
          ps' = (if \<not> found then processBeacon_insert beacon 0 ps else ps)
      in node\<lparr>peers := ps',
              esp_log := esp_log node @ [BeaconReceivedFrom (take 6 (sender_id beacon))]\<rparr>)"

text \<open>
  The receive callback registered in \<^verbatim>\<open>initESPNOW\<close>. The transport hands over the frame
  bytes and their length \<open>len\<close> (a C \<^verbatim>\<open>int\<close>). \<^verbatim>\<open>sizeof(BeaconPacket)\<close> and the way
  \<^verbatim>\<open>memcpy(&beacon, data, len)\<close> lays the bytes out in the struct are fixed by the
  compiler, not by this source file; they are the parameters \<open>sizeof_BeaconPacket\<close> and
  \<open>beacon_of_bytes\<close>. (C compares \<open>len\<close> with the size after converting it to
  \<^verbatim>\<open>size_t\<close>; a negative \<open>len\<close> becomes a value above every object size, so the test
  agrees with the comparison of integers made here.)
\<close>

definition recv_cb :: "int \<Rightarrow> (byte list \<Rightarrow> BeaconPacket) \<Rightarrow> byte list \<Rightarrow> int
    \<Rightarrow> SwarmIntelligenceNode \<Rightarrow> SwarmIntelligenceNode" where
  "recv_cb sizeof_BeaconPacket beacon_of_bytes data len node =
     (if len = sizeof_BeaconPacket then processBeacon (beacon_of_bytes data) node
      else node)"

text \<open>Receiving a sequence of beacons, one \<^verbatim>\<open>processBeacon\<close> call each, in order.\<close>

fun processBeacons :: "BeaconPacket list \<Rightarrow> SwarmIntelligenceNode \<Rightarrow> SwarmIntelligenceNode" where
  "processBeacons [] node = node"
| "processBeacons (b # bs) node = processBeacons bs (processBeacon b node)"

definition active_count :: "SwarmPeer list \<Rightarrow> nat" where
  "active_count ps = length (filter is_active ps)"

text \<open>Whether a slot's identity equals the sender's: the test of the first loop.\<close>

definition matches :: "BeaconPacket \<Rightarrow> SwarmPeer \<Rightarrow> bool" where
  "matches beacon p = memcmp_eq (mac_address p) (sender_id beacon) NODE_ID_LENGTH"

section \<open>Storage Manager\<close>

text \<open>
  Source: \<^verbatim>\<open>FileManager.hpp\<close>. Field names that would clash between the request and
  response structs of the two managers carry a prefix here: \<open>f_\<close> for \<^verbatim>\<open>FileRequest\<close>
  (\<open>f_operation\<close>, \<open>f_data\<close>, \<open>f_length\<close>, \<open>f_requestId\<close>) and \<open>fr_\<close> for
  \<^verbatim>\<open>FileResponse\<close>. A \<^verbatim>\<open>uint8_t*\<close> is an optional byte list, \<open>None\<close> for
  \<^verbatim>\<open>nullptr\<close>.
\<close>

datatype FileOp = READ | WRITE | DELETE | LIST | STATUS

record FileRequest =
  f_operation :: FileOp
  filename :: string
  f_data :: "byte list option"
  f_length :: nat
  f_requestId :: "32 word"

record FileResponse =
  fr_success :: bool
  fr_message :: string
  fr_data :: "byte list option"
  fr_length :: nat
  fr_requestId :: "32 word"

text \<open>
  The public request methods build the request and send it to the request queue with
  \<^verbatim>\<open>portMAX_DELAY\<close>; the value they enqueue is:
\<close>

definition requestRead :: "string \<Rightarrow> 32 word \<Rightarrow> FileRequest" where
  "requestRead name rid =
     \<lparr>f_operation = READ, filename = name, f_data = None, f_length = 0, f_requestId = rid\<rparr>"

definition requestWrite :: "string \<Rightarrow> byte list \<Rightarrow> nat \<Rightarrow> 32 word \<Rightarrow> FileRequest" where
  "requestWrite name buf len rid =
     \<lparr>f_operation = WRITE, filename = name, f_data = Some buf, f_length = len, f_requestId = rid\<rparr>"

text \<open>
  The mounted filesystem maps a path to the file's bytes. What the C library and the heap
  do while one request is served is given by an \<open>io_outcome\<close>; the code tests only the
  result of \<^verbatim>\<open>fopen\<close> and the counts returned by \<^verbatim>\<open>fwrite\<close> and \<^verbatim>\<open>fread\<close>, and the
  outcomes it does not test are fields all the same:
  \<^item> \<open>fopen_ok\<close>: \<^verbatim>\<open>fopen\<close> returns a file. Opening for reading also fails when the file
    does not exist; a failed \<^verbatim>\<open>fopen(..., "wb")\<close> leaves the filesystem as it was.
  \<^item> \<open>io_limit\<close>: the most bytes that the one \<^verbatim>\<open>fwrite\<close> or \<^verbatim>\<open>fread\<close> of the request
    transfers; the call returns the count transferred.
  \<^item> \<open>fclose_ok\<close> and \<open>flushed\<close>: whether the \<^verbatim>\<open>fclose\<close> after \<^verbatim>\<open>fwrite\<close> succeeds, and,
    when it fails, the most bytes that reached the file. The code drops the result of
    \<^verbatim>\<open>fclose\<close>.
  \<^item> \<open>ftell_pos\<close>: for a file of \<open>n\<close> bytes, what \<^verbatim>\<open>ftell\<close> returns after the unchecked
    \<^verbatim>\<open>fseek(file, 0, SEEK_END)\<close>: \<open>Some p\<close> for the position \<open>p\<close>, \<open>None\<close> for \<open>-1\<close>.
    Where both calls succeed it is \<open>Some n\<close>.
  \<^item> \<open>fread_pos\<close>: the file position at which \<^verbatim>\<open>fread\<close> starts, after the unchecked
    \<^verbatim>\<open>fseek(file, 0, SEEK_SET)\<close>; \<open>0\<close> where that call succeeds.
  \<^item> \<open>new_ok\<close>: whether \<^verbatim>\<open>new uint8_t[n]\<close> returns a block; otherwise it throws
    \<^verbatim>\<open>std::bad_alloc\<close>.
\<close>

type_synonym filesystem = "string \<rightharpoonup> byte list"

record io_outcome =
  fopen_ok :: bool
  io_limit :: nat
  fclose_ok :: bool
  flushed :: nat
  ftell_pos :: "nat \<Rightarrow> nat option"
  fread_pos :: nat
  new_ok :: "nat \<Rightarrow> bool"

datatype cpp_exception = bad_alloc

text \<open>
  \<^verbatim>\<open>size_t\<close> has 32 bits on the ESP32, so \<open>-1\<close> converted to \<^verbatim>\<open>size_t\<close> is:
\<close>

definition SIZE_MAX :: nat where
  "SIZE_MAX = 2 ^ 32 - 1"

definition buffer_bytes :: "byte list option \<Rightarrow> byte list" where
  "buffer_bytes p = (case p of None \<Rightarrow> [] | Some b \<Rightarrow> b)"

text \<open>
  \<^verbatim>\<open>handleRead\<close>. \<open>size\<close> is what \<^verbatim>\<open>ftell\<close> returned, converted to \<^verbatim>\<open>size_t\<close>. The
  allocation of the buffer is inside no \<^verbatim>\<open>try\<close> block, here or in \<^verbatim>\<open>fileTask\<close>: when it
  throws, the exception leaves the handler (result \<open>Inl bad_alloc\<close>) and no response is
  assigned. Otherwise \<^verbatim>\<open>fread\<close> fills the first \<open>read\<close> bytes of the buffer from the
  file position on, and the response carries the buffer with length \<open>read\<close>, so its
  payload is those \<open>read\<close> bytes.
\<close>

definition handleRead :: "io_outcome \<Rightarrow> FileRequest \<Rightarrow> filesystem
    \<Rightarrow> cpp_exception + FileResponse \<times> filesystem" where
  "handleRead io request fs =
     (case (if fopen_ok io then fs (filename request) else None) of
        None \<Rightarrow>
          Inr (\<lparr>fr_success = False, fr_message = ''Failed to open file'', fr_data = None,
                fr_length = 0, fr_requestId = f_requestId request\<rparr>, fs)
      | Some contents \<Rightarrow>
          (let size = (case ftell_pos io (length contents) of None \<Rightarrow> SIZE_MAX | Some p \<Rightarrow> p)
           in if \<not> new_ok io size then Inl bad_alloc
              else
                (let ahead = drop (fread_pos io) contents;
                     read = min (min size (length ahead)) (io_limit io)
                 in Inr (\<lparr>fr_success = (read = size),
                           fr_message = (if read = size then ''Success'' else ''Read error''),
                           fr_data = Some (take read ahead),
                           fr_length = read,
                           fr_requestId = f_requestId request\<rparr>, fs))))"

text \<open>
  \<^verbatim>\<open>handleWrite\<close>: \<^verbatim>\<open>fopen(..., "wb")\<close> creates or truncates the file, \<^verbatim>\<open>fwrite\<close> takes
  the first \<open>written\<close> of the \<open>f_length\<close> bytes at \<open>f_data\<close> and returns \<open>written\<close>,
  on which alone the response depends. The file holds those bytes once \<^verbatim>\<open>fclose\<close> has
  succeeded; when \<^verbatim>\<open>fclose\<close> fails it holds the \<open>flushed\<close> first of them at most.
  (Were \<open>f_length\<close> larger than the caller's buffer, the C code would read past the
  buffer; the model stops at its end.)
\<close>

definition handleWrite :: "io_outcome \<Rightarrow> FileRequest \<Rightarrow> filesystem \<Rightarrow> FileResponse \<times> filesystem" where
  "handleWrite io request fs =
     (if \<not> fopen_ok io then
        (\<lparr>fr_success = False, fr_message = ''Failed to create file'', fr_data = None,
          fr_length = 0, fr_requestId = f_requestId request\<rparr>, fs)
      else
        (let written = min (f_length request) (io_limit io);
             persisted = (if fclose_ok io then written else min written (flushed io))
         in (\<lparr>fr_success = (written = f_length request),
               fr_message = (if written = f_length request then ''Success'' else ''Write error''),
               fr_data = None,
               fr_length = written,
               fr_requestId = f_requestId request\<rparr>,
             fs(filename request \<mapsto> take persisted (buffer_bytes (f_data request))))))"

text \<open>
  One iteration of the loop in \<^verbatim>\<open>fileTask\<close>, after a request was received and the mutex
  taken (both block with \<^verbatim>\<open>portMAX_DELAY\<close>). The local variable \<^verbatim>\<open>response\<close> is declared
  outside the loop; the \<^verbatim>\<open>switch\<close> has cases for \<^verbatim>\<open>READ\<close> and \<^verbatim>\<open>WRITE\<close> only and no
  default, so for any other operation the variable keeps its previous value. An
  exception thrown by \<^verbatim>\<open>handleRead\<close> passes through.
\<close>

definition fileTask_switch :: "io_outcome \<Rightarrow> FileRequest \<Rightarrow> FileResponse \<Rightarrow> filesystem
    \<Rightarrow> cpp_exception + FileResponse \<times> filesystem" where
  "fileTask_switch io request response fs =
     (case f_operation request of
        READ \<Rightarrow> handleRead io request fs
      | WRITE \<Rightarrow> Inr (handleWrite io request fs)
      | _ \<Rightarrow> Inr (response, fs))"

text \<open>
  The worker loop over the requests it receives, in queue order. An iteration that
  completes ends with one \<^verbatim>\<open>xQueueSend\<close> of \<^verbatim>\<open>response\<close> to the response queue. An
  exception that reaches the loop is caught nowhere: the task function is left, the
  program is terminated, and neither this request nor any later one is answered. The
  result is: the responses sent, in order; whether the worker is still running; the
  variable \<^verbatim>\<open>response\<close>; the filesystem. The arguments are the requests (each with the
  outcomes met while serving it), the initial value of \<^verbatim>\<open>response\<close>, and the filesystem.
\<close>

fun fileTask :: "(io_outcome \<times> FileRequest) list \<Rightarrow> FileResponse \<Rightarrow> filesystem
    \<Rightarrow> FileResponse list \<times> bool \<times> FileResponse \<times> filesystem" where
  "fileTask [] response fs = ([], True, response, fs)"
| "fileTask ((io, request) # rest) response fs =
     (case fileTask_switch io request response fs of
        Inl e \<Rightarrow> ([], False, response, fs)
      | Inr (response', fs') \<Rightarrow>
          (let (sent, running, response'', fs'') = fileTask rest response' fs'
           in (response' # sent, running, response'', fs'')))"

section \<open>Model Runtime\<close>

text \<open>
  Source: \<^verbatim>\<open>ModelRuntime.hpp\<close>. In \<^verbatim>\<open>ModelResponse\<close> the fields \<^verbatim>\<open>requestId\<close> and
  \<^verbatim>\<open>state\<close> are named \<open>response_requestId\<close> and \<open>response_state\<close>, to keep them
  apart from \<^verbatim>\<open>ModelRequest::requestId\<close> and \<^verbatim>\<open>ModelContext::state\<close>.
\<close>

datatype ModelState = UNLOADED | LOADING | READY | RUNNING | ERROR

datatype ModelOp = LOAD | UNLOAD | RUN | STATUS

record ModelRequest =
  operation :: ModelOp
  modelId :: string
  inputData :: "byte list option"
  inputLength :: nat
  requestId :: "32 word"

record ModelResponse =
  success :: bool
  message :: string
  outputData :: "byte list option"
  outputLength :: nat
  response_requestId :: "32 word"
  response_state :: ModelState

definition requestModelLoad :: "string \<Rightarrow> 32 word \<Rightarrow> ModelRequest" where
  "requestModelLoad mid rid =
     \<lparr>operation = LOAD, modelId = mid, inputData = None, inputLength = 0, requestId = rid\<rparr>"

definition requestInference :: "string \<Rightarrow> byte list \<Rightarrow> nat \<Rightarrow> 32 word \<Rightarrow> ModelRequest" where
  "requestInference mid buf len rid =
     \<lparr>operation = RUN, modelId = mid, inputData = Some buf, inputLength = len, requestId = rid\<rparr>"

text \<open>
  The TensorFlow Lite Micro engine is a collaborator outside the repository. Memory is a
  map from byte offsets to bytes; the tensor arena of a context is the memory that starts
  at the arena's first byte, of which the first \<open>tensorArenaSize\<close> offsets belong to the
  arena. A tensor is a place in it: \<open>data_raw\<close> is the offset of its first byte and
  \<open>bytes\<close> its size.

  A model is represented by what the interpreter built over it does: the status that
  \<^verbatim>\<open>AllocateTensors()\<close> returns, the tensors \<^verbatim>\<open>input(0)\<close> and \<^verbatim>\<open>output(0)\<close>, and the
  effect of \<^verbatim>\<open>Invoke()\<close> on the arena together with its status. The fields
  \<^verbatim>\<open>interpreter\<close> and \<^verbatim>\<open>resolver\<close> of \<^verbatim>\<open>ModelContext\<close> hold nothing beyond that and are
  not separate fields of the record below.
\<close>

type_synonym memory = "nat \<Rightarrow> byte"

datatype TfLiteStatus = kTfLiteOk | kTfLiteError

record TfLiteTensor =
  data_raw :: nat
  bytes :: nat

record tflite_Model =
  AllocateTensors :: TfLiteStatus
  input0 :: TfLiteTensor
  output0 :: TfLiteTensor
  Invoke :: "memory \<Rightarrow> TfLiteStatus \<times> memory"

record ModelContext =
  model :: tflite_Model
  tensorArena :: memory
  tensorArenaSize :: nat
  state :: ModelState

type_synonym model_table = "string \<rightharpoonup> ModelContext"

text \<open>
  What the handlers obtain from outside: \<open>loadModelFromStorage\<close>, resolving a model
  identifier to a model or to \<^verbatim>\<open>nullptr\<close> (\<open>None\<close>), and \<open>new_uint8\<close>, the outcome of
  \<^verbatim>\<open>new uint8_t[n]\<close>: the fresh block's contents, or \<open>None\<close> when the allocation throws
  \<^verbatim>\<open>std::bad_alloc\<close>. The body of \<^verbatim>\<open>loadModelFromStorage\<close> in the source is a placeholder
  (``implementation depends on your storage system'') that returns \<^verbatim>\<open>nullptr\<close>; it is
  \<open>loadModelFromStorage_placeholder\<close> below, and the handlers are modelled for every
  storage collaborator, the placeholder included.
\<close>

record runtime_env =
  loadModelFromStorage :: "string \<Rightarrow> tflite_Model option"
  new_uint8 :: "nat \<Rightarrow> memory option"

definition loadModelFromStorage_placeholder :: "string \<Rightarrow> tflite_Model option" where
  "loadModelFromStorage_placeholder mid = None"

text \<open>
  \<^verbatim>\<open>memcpy(dst + off, src, n)\<close> into memory: offsets \<open>off .. off + n - 1\<close> receive the
  first \<open>n\<close> bytes of \<open>src\<close>, whatever lies there. (The model stops at the end of the
  caller's buffer, where the C code would read past it.) \<open>read_bytes\<close> is the copy out of
  memory.
\<close>

definition memcpy_to :: "memory \<Rightarrow> nat \<Rightarrow> byte list \<Rightarrow> nat \<Rightarrow> memory" where
  "memcpy_to mem off src n =
     (\<lambda>a. if off \<le> a \<and> a < off + length (take n src) then take n src ! (a - off) else mem a)"

definition read_bytes :: "memory \<Rightarrow> nat \<Rightarrow> nat \<Rightarrow> byte list" where
  "read_bytes mem off n = map (\<lambda>i. mem (off + i)) [0..<n]"

text \<open>
  The \<^verbatim>\<open>catch\<close> block shared by both handlers: a failed response carrying
  \<^verbatim>\<open>e.what()\<close> and the state \<^verbatim>\<open>ERROR\<close>. It assigns the response only; it writes
  nothing to the model table.
\<close>

definition catch_response :: "string \<Rightarrow> ModelRequest \<Rightarrow> ModelResponse" where
  "catch_response what request =
     \<lparr>success = False, message = what, outputData = None, outputLength = 0,
      response_requestId = requestId request, response_state = ERROR\<rparr>"

definition handleModelLoad :: "runtime_env \<Rightarrow> ModelRequest \<Rightarrow> model_table
    \<Rightarrow> ModelResponse \<times> model_table" where
  "handleModelLoad env request loadedModels =
     (if loadedModels (modelId request) \<noteq> None then
        (\<lparr>success = True, message = ''Model already loaded'', outputData = None,
          outputLength = 0, response_requestId = requestId request, response_state = READY\<rparr>,
         loadedModels)
      else
        (case loadModelFromStorage env (modelId request) of
           None \<Rightarrow> (catch_response ''Failed to load model file'' request, loadedModels)
         | Some m \<Rightarrow>
             (case new_uint8 env (32 * 1024) of
                None \<Rightarrow> (catch_response ''std::bad_alloc'' request, loadedModels)
              | Some arena \<Rightarrow>
                  (if AllocateTensors m \<noteq> kTfLiteOk then
                     (catch_response ''Failed to allocate tensors'' request, loadedModels)
                   else
                     (\<lparr>success = True, message = ''Model loaded successfully'',
                       outputData = None, outputLength = 0,
                       response_requestId = requestId request, response_state = READY\<rparr>,
                      loadedModels(modelId request \<mapsto>
                        \<lparr>model = m, tensorArena = arena, tensorArenaSize = 32 * 1024,
                         state = READY\<rparr>))))))"

text \<open>
  \<^verbatim>\<open>handleInference\<close> works on a reference to the stored context, so each assignment to
  \<^verbatim>\<open>context.state\<close> and each write to the arena is a write to the table entry. The only
  test made before the copy is whether the table has an entry for the identifier. When
  \<^verbatim>\<open>Invoke\<close> fails or the output buffer cannot be allocated, the exception leaves the
  \<^verbatim>\<open>try\<close> block after \<^verbatim>\<open>context.state = RUNNING\<close> and before
  \<^verbatim>\<open>context.state = READY\<close>.
\<close>

definition handleInference :: "runtime_env \<Rightarrow> ModelRequest \<Rightarrow> model_table
    \<Rightarrow> ModelResponse \<times> model_table" where
  "handleInference env request loadedModels =
     (case loadedModels (modelId request) of
        None \<Rightarrow>
          (\<lparr>success = False, message = ''Model not loaded'', outputData = None,
            outputLength = 0, response_requestId = requestId request,
            response_state = UNLOADED\<rparr>, loadedModels)
      | Some context \<Rightarrow>
          (let running = context\<lparr>state := RUNNING\<rparr>;
               inputTensor = input0 (model running);
               copied = memcpy_to (tensorArena running) (data_raw inputTensor)
                          (buffer_bytes (inputData request)) (inputLength request);
               (status, arena) = Invoke (model running) copied;
               invoked = running\<lparr>tensorArena := arena\<rparr>
           in if status \<noteq> kTfLiteOk then
                (catch_response ''Inference failed'' request,
                 loadedModels(modelId request \<mapsto> invoked))
              else
                (let outputTensor = output0 (model invoked)
                 in case new_uint8 env (bytes outputTensor) of
                      None \<Rightarrow>
                        (catch_response ''std::bad_alloc'' request,
                         loadedModels(modelId request \<mapsto> invoked))
                    | Some fresh \<Rightarrow>
                        (\<lparr>success = True, message = ''Inference successful'',
                          outputData = Some (read_bytes arena (data_raw outputTensor)
                                               (bytes outputTensor)),
                          outputLength = bytes outputTensor,
                          response_requestId = requestId request,
                          response_state = READY\<rparr>,
                         loadedModels(modelId request \<mapsto> invoked\<lparr>state := READY\<rparr>)))))"

text \<open>
  One iteration of the loop in \<^verbatim>\<open>modelTask\<close>. The \<^verbatim>\<open>switch\<close> has cases for \<^verbatim>\<open>LOAD\<close>,
  \<^verbatim>\<open>RUN\<close> and \<^verbatim>\<open>UNLOAD\<close> and no default; for \<^verbatim>\<open>STATUS\<close> the variable \<^verbatim>\<open>response\<close>,
  declared outside the loop, keeps its previous value. \<^verbatim>\<open>handleModelUnload\<close> is called
  but defined nowhere in the source, so it is a parameter: any function of the request,
  the current \<^verbatim>\<open>response\<close> and the table.
\<close>

definition modelTask_switch ::
  "(ModelRequest \<Rightarrow> ModelResponse \<Rightarrow> model_table \<Rightarrow> ModelResponse \<times> model_table)
    \<Rightarrow> runtime_env \<Rightarrow> ModelRequest \<Rightarrow> ModelResponse \<Rightarrow> model_table
    \<Rightarrow> ModelResponse \<times> model_table" where
  "modelTask_switch handleModelUnload env request response loadedModels =
     (case operation request of
        LOAD \<Rightarrow> handleModelLoad env request loadedModels
      | RUN \<Rightarrow> handleInference env request loadedModels
      | UNLOAD \<Rightarrow> handleModelUnload request response loadedModels
      | STATUS \<Rightarrow> (response, loadedModels))"

text \<open>
  The worker loop over the requests it receives, in queue order, with one
  \<^verbatim>\<open>xQueueSend\<close> of \<^verbatim>\<open>response\<close> per iteration; the first component of the result lists
  what was sent.
\<close>

fun modelTask ::
  "(ModelRequest \<Rightarrow> ModelResponse \<Rightarrow> model_table \<Rightarrow> ModelResponse \<times> model_table)
    \<Rightarrow> (runtime_env \<times> ModelRequest) list \<Rightarrow> ModelResponse \<Rightarrow> model_table
    \<Rightarrow> ModelResponse list \<times> ModelResponse \<times> model_table" where
  "modelTask handleModelUnload [] response loadedModels = ([], response, loadedModels)"
| "modelTask handleModelUnload ((env, request) # rest) response loadedModels =
     (let (response', loadedModels') =
            modelTask_switch handleModelUnload env request response loadedModels;
          (sent, response'', loadedModels'') =
            modelTask handleModelUnload rest response' loadedModels'
      in (response' # sent, response'', loadedModels''))"

text \<open>
  A predicate on the model table used to state what the handlers maintain: every stored
  context is in state \<^verbatim>\<open>READY\<close> or \<^verbatim>\<open>RUNNING\<close>. It holds of the empty table and
  both handlers preserve it (lemmas \<open>lifecycle_ok_handleModelLoad\<close> and
  \<open>lifecycle_ok_handleInference\<close> below).
\<close>

definition lifecycle_ok :: "model_table \<Rightarrow> bool" where
  "lifecycle_ok loadedModels =
     (\<forall>mid context. loadedModels mid = Some context \<longrightarrow>
        state context = READY \<or> state context = RUNNING)"

section \<open>Example inputs\<close>

text \<open>
  Concrete states and requests on which the theorems below are instantiated. The example
  directory has \<open>MAX_PEERS\<close> slots with pairwise different identities; the example
  model has a four-byte input tensor at offset 0 and a four-byte output tensor at offset 8,
  and its \<^verbatim>\<open>Invoke\<close> fails when the first input byte is zero and otherwise copies the
  input tensor to the output tensor.
\<close>

definition example_peer :: "nat \<Rightarrow> bool \<Rightarrow> SwarmPeer" where
  "example_peer i a = \<lparr>mac_address = [of_nat i, 0, 0, 0, 0, 0xAA], rssi = 0xD8, last_seen = 0,
                        is_active = a, capabilities = replicate 32 0\<rparr>"

definition example_beacon :: "byte list \<Rightarrow> BeaconPacket" where
  "example_beacon sender = \<lparr>sender_id = sender, beacon_capabilities = replicate 32 1, timestamp = 7\<rparr>"

definition full_directory :: SwarmIntelligenceNode where
  "full_directory = \<lparr>peers = map (\<lambda>i. example_peer i True) [0..<20], esp_log = []\<rparr>"

definition idle_directory :: SwarmIntelligenceNode where
  "idle_directory = \<lparr>peers = map (\<lambda>i. example_peer i False) [0..<20], esp_log = []\<rparr>"

definition example_io :: io_outcome where
  "example_io = \<lparr>fopen_ok = True, io_limit = 4096, fclose_ok = True, flushed = 0,
                  ftell_pos = (\<lambda>n. Some n), fread_pos = 0, new_ok = (\<lambda>n. True)\<rparr>"

definition example_response :: FileResponse where
  "example_response = \<lparr>fr_success = False, fr_message = [], fr_data = None, fr_length = 0, fr_requestId = 0\<rparr>"

definition example_model :: tflite_Model where
  "example_model =
     \<lparr>AllocateTensors = kTfLiteOk,
      input0 = \<lparr>data_raw = 0, bytes = 4\<rparr>,
      output0 = \<lparr>data_raw = 8, bytes = 4\<rparr>,
      Invoke = (\<lambda>mem. if mem 0 = 0 then (kTfLiteError, mem)
                       else (kTfLiteOk, \<lambda>a. if 8 \<le> a \<and> a < 12 then mem (a - 8) else mem a))\<rparr>"

definition example_env :: runtime_env where
  "example_env =
     \<lparr>loadModelFromStorage = (\<lambda>mid. if mid = ''m'' then Some example_model else None),
      new_uint8 = (\<lambda>n. Some (\<lambda>a. 0))\<rparr>"

definition placeholder_env :: runtime_env where
  "placeholder_env =
     \<lparr>loadModelFromStorage = loadModelFromStorage_placeholder,
      new_uint8 = (\<lambda>n. Some (\<lambda>a. 0))\<rparr>"

definition example_model_response :: ModelResponse where
  "example_model_response = \<lparr>success = False, message = [], outputData = None, outputLength = 0,
     response_requestId = 0, response_state = UNLOADED\<rparr>"



definition low_heap_io :: io_outcome where
  "low_heap_io = example_io\<lparr>new_ok := (\<lambda>n. n \<le> 2)\<rparr>"

definition no_heap_env :: runtime_env where
  "no_heap_env = example_env\<lparr>new_uint8 := (\<lambda>n. None)\<rparr>"

text \<open>
  The model table after a successful \<^verbatim>\<open>LOAD\<close> of \<open>''m''\<close> into the empty table, and
  after a following \<^verbatim>\<open>RUN\<close> whose \<^verbatim>\<open>Invoke\<close> fails.
\<close>

definition loaded_table :: model_table where
  "loaded_table = snd (handleModelLoad example_env (requestModelLoad ''m'' 1) Map.empty)"

definition failed_table :: model_table where
  "failed_table = snd (handleInference example_env (requestInference ''m'' [0, 0, 0, 0] 4 2) loaded_table)"

section \<open>Properties of the Peer Directory\<close>

subsection \<open>The two loops\<close>

lemma length_processBeacon_update:
  "length (snd (processBeacon_update beacon i ps)) = length ps"
  by (induction beacon i ps rule: processBeacon_update.induct)
     (subst processBeacon_update.simps, simp)

lemma length_processBeacon_insert:
  "length (processBeacon_insert beacon i ps) = length ps"
  by (induction beacon i ps rule: processBeacon_insert.induct)
     (subst processBeacon_insert.simps, simp)

lemma length_processBeacon:
  "length (peers (processBeacon beacon node)) = length (peers node)"
proof -
  obtain found ps where u: "processBeacon_update beacon 0 (peers node) = (found, ps)"
    by (cases "processBeacon_update beacon 0 (peers node)")
  have "length ps = length (peers node)"
    using length_processBeacon_update [of beacon 0 "peers node"] u by simp
  then show ?thesis
    by (simp add: processBeacon_def u length_processBeacon_insert)
qed

lemma length_processBeacons:
  "length (peers (processBeacons bs node)) = length (peers node)"
  by (induction bs arbitrary: node) (simp_all add: length_processBeacon)

lemma active_count_le: "active_count ps \<le> length ps"
  by (simp add: active_count_def)

lemma processBeacon_update_no_match:
  "(\<And>j. i \<le> j \<Longrightarrow> j < MAX_PEERS \<Longrightarrow> \<not> matches beacon (ps ! j))
   \<Longrightarrow> processBeacon_update beacon i ps = (False, ps)"
proof (induction beacon i ps rule: processBeacon_update.induct)
  case (1 beacon i ps)
  show ?case
  proof (cases "i < MAX_PEERS")
    case True
    have nm: "\<not> memcmp_eq (mac_address (ps ! i)) (sender_id beacon) NODE_ID_LENGTH"
      using "1.prems" [of i] True by (simp add: matches_def)
    have "processBeacon_update beacon (Suc i) ps = (False, ps)"
      using "1.IH" [OF True nm] "1.prems" by simp
    then show ?thesis
      using True nm by (subst processBeacon_update.simps) simp
  next
    case False
    then show ?thesis by (subst processBeacon_update.simps) simp
  qed
qed

lemma processBeacon_insert_all_active:
  "(\<And>j. i \<le> j \<Longrightarrow> j < MAX_PEERS \<Longrightarrow> is_active (ps ! j))
   \<Longrightarrow> processBeacon_insert beacon i ps = ps"
proof (induction beacon i ps rule: processBeacon_insert.induct)
  case (1 beacon i ps)
  show ?case
  proof (cases "i < MAX_PEERS")
    case True
    have act: "is_active (ps ! i)"
      using "1.prems" [of i] True by simp
    have "processBeacon_insert beacon (Suc i) ps = ps"
      using "1.IH" [OF True] act "1.prems" by simp
    then show ?thesis
      using True act by (subst processBeacon_insert.simps) simp
  next
    case False
    then show ?thesis by (subst processBeacon_insert.simps) simp
  qed
qed

lemma processBeacon_update_first_match:
  "i \<le> k \<Longrightarrow> k < MAX_PEERS \<Longrightarrow> matches beacon (ps ! k) \<Longrightarrow>
   (\<And>j. i \<le> j \<Longrightarrow> j < k \<Longrightarrow> \<not> matches beacon (ps ! j))
   \<Longrightarrow> processBeacon_update beacon i ps = (True, ps[k := update_slot beacon (ps ! k)])"
proof (induction beacon i ps rule: processBeacon_update.induct)
  case (1 beacon i ps)
  have lt: "i < MAX_PEERS" using "1.prems" by simp
  show ?case
  proof (cases "i = k")
    case True
    then show ?thesis
      using lt "1.prems"(3)
      by (subst processBeacon_update.simps) (simp add: matches_def)
  next
    case False
    then have ik: "i < k" using "1.prems"(1) by simp
    have nm: "\<not> memcmp_eq (mac_address (ps ! i)) (sender_id beacon) NODE_ID_LENGTH"
      using "1.prems"(4) [of i] ik by (simp add: matches_def)
    have "processBeacon_update beacon (Suc i) ps = (True, ps[k := update_slot beacon (ps ! k)])"
      using "1.IH" [OF lt nm] ik "1.prems" by simp
    then show ?thesis
      using lt nm by (subst processBeacon_update.simps) simp
  qed
qed

lemma processBeacon_insert_first_inactive:
  "i \<le> k \<Longrightarrow> k < MAX_PEERS \<Longrightarrow> \<not> is_active (ps ! k) \<Longrightarrow>
   (\<And>j. i \<le> j \<Longrightarrow> j < k \<Longrightarrow> is_active (ps ! j))
   \<Longrightarrow> processBeacon_insert beacon i ps = ps[k := populate_slot beacon (ps ! k)]"
proof (induction beacon i ps rule: processBeacon_insert.induct)
  case (1 beacon i ps)
  have lt: "i < MAX_PEERS" using "1.prems" by simp
  show ?case
  proof (cases "i = k")
    case True
    then show ?thesis
      using lt "1.prems"(3)
      by (subst processBeacon_insert.simps) simp
  next
    case False
    then have ik: "i < k" using "1.prems"(1) by simp
    have act: "is_active (ps ! i)"
      using "1.prems"(4) [of i] ik by simp
    have "processBeacon_insert beacon (Suc i) ps = ps[k := populate_slot beacon (ps ! k)]"
      using "1.IH" [OF lt] act ik "1.prems" by simp
    then show ?thesis
      using lt act by (subst processBeacon_insert.simps) simp
  qed
qed

lemma active_count_update:
  assumes "i < length ps"
  shows "active_count (ps[i := p]) + (if is_active (ps ! i) then 1 else 0)
         = active_count ps + (if is_active p then 1 else 0)"
proof -
  have a: "ps[i := p] = take i ps @ p # drop (Suc i) ps"
    using assms by (rule upd_conv_take_nth_drop)
  have b: "ps = take i ps @ ps ! i # drop (Suc i) ps"
    using assms by (rule id_take_nth_drop)
  have "active_count ps = active_count (take i ps @ ps ! i # drop (Suc i) ps)"
    using b by simp
  then show ?thesis
    unfolding a by (simp add: active_count_def)
qed

text \<open>
  A beacon whose identity matches some slot updates the first such slot and nothing else;
  one that matches no slot goes to the first inactive slot, or changes nothing when every
  slot is active.
\<close>

lemma processBeacon_match:
  assumes "\<exists>j<MAX_PEERS. matches beacon (peers node ! j)"
  shows "\<exists>i<MAX_PEERS. matches beacon (peers node ! i)
           \<and> (\<forall>j<i. \<not> matches beacon (peers node ! j))
           \<and> peers (processBeacon beacon node)
               = (peers node)[i := update_slot beacon (peers node ! i)]"
proof -
  define P where "P = (\<lambda>j. j < MAX_PEERS \<and> matches beacon (peers node ! j))"
  define i where "i = (LEAST j. P j)"
  from assms obtain j where "P j" by (auto simp: P_def)
  then have Pi: "P i" unfolding i_def by (rule LeastI)
  have least: "\<And>j. j < i \<Longrightarrow> \<not> P j"
    unfolding i_def by (rule not_less_Least)
  have lt: "i < MAX_PEERS" and m: "matches beacon (peers node ! i)"
    using Pi by (simp_all add: P_def)
  have nm: "\<And>j. j < i \<Longrightarrow> \<not> matches beacon (peers node ! j)"
    using least lt by (simp add: P_def)
  have "processBeacon_update beacon 0 (peers node)
          = (True, (peers node)[i := update_slot beacon (peers node ! i)])"
    by (rule processBeacon_update_first_match) (use lt m nm in simp_all)
  then have "peers (processBeacon beacon node)
               = (peers node)[i := update_slot beacon (peers node ! i)]"
    by (simp add: processBeacon_def)
  with lt m nm show ?thesis by blast
qed

lemma processBeacon_no_match_full:
  assumes "\<forall>j<MAX_PEERS. \<not> matches beacon (peers node ! j)"
    and "\<forall>j<MAX_PEERS. is_active (peers node ! j)"
  shows "peers (processBeacon beacon node) = peers node"
proof -
  have u: "processBeacon_update beacon 0 (peers node) = (False, peers node)"
    by (rule processBeacon_update_no_match) (use assms(1) in simp)
  have v: "processBeacon_insert beacon 0 (peers node) = peers node"
    by (rule processBeacon_insert_all_active) (use assms(2) in simp)
  show ?thesis by (simp add: processBeacon_def u v)
qed

lemma processBeacon_no_match_free:
  assumes "\<forall>j<MAX_PEERS. \<not> matches beacon (peers node ! j)"
    and "\<exists>j<MAX_PEERS. \<not> is_active (peers node ! j)"
  shows "\<exists>i<MAX_PEERS. \<not> is_active (peers node ! i)
           \<and> (\<forall>j<i. is_active (peers node ! j))
           \<and> peers (processBeacon beacon node)
               = (peers node)[i := populate_slot beacon (peers node ! i)]"
proof -
  define P where "P = (\<lambda>j. j < MAX_PEERS \<and> \<not> is_active (peers node ! j))"
  define i where "i = (LEAST j. P j)"
  from assms(2) obtain j where "P j" by (auto simp: P_def)
  then have Pi: "P i" unfolding i_def by (rule LeastI)
  have least: "\<And>j. j < i \<Longrightarrow> \<not> P j"
    unfolding i_def by (rule not_less_Least)
  have lt: "i < MAX_PEERS" and m: "\<not> is_active (peers node ! i)"
    using Pi by (simp_all add: P_def)
  have act: "\<And>j. j < i \<Longrightarrow> is_active (peers node ! j)"
    using least lt by (simp add: P_def)
  have u: "processBeacon_update beacon 0 (peers node) = (False, peers node)"
    by (rule processBeacon_update_no_match) (use assms(1) in simp)
  have "processBeacon_insert beacon 0 (peers node)
          = (peers node)[i := populate_slot beacon (peers node ! i)]"
    by (rule processBeacon_insert_first_inactive) (use lt m act in simp_all)
  then have "peers (processBeacon beacon node)
               = (peers node)[i := populate_slot beacon (peers node ! i)]"
    by (simp add: processBeacon_def u)
  with lt m act show ?thesis by blast
qed

subsection \<open>Capacity\<close>

text \<open>
  Claim C7. The Peer Directory never holds more than its fixed capacity
  (\<open>MAX_PEERS = 20\<close>) of entries, for any sequence of received beacons: the table keeps
  its \<open>MAX_PEERS\<close> slots and so never has more than \<open>MAX_PEERS\<close> active entries. When
  every slot is active and a beacon arrives from an identity that matches no slot, the
  beacon is dropped and no existing entry is modified.
\<close>

theorem peer_directory_capacity:
  assumes "length (peers node) = MAX_PEERS"
  shows "MAX_PEERS = 20
    \<and> length (peers (processBeacons bs node)) = MAX_PEERS
    \<and> active_count (peers (processBeacons bs node)) \<le> MAX_PEERS
    \<and> ((\<forall>j<MAX_PEERS. is_active (peers node ! j) \<and> \<not> matches beacon (peers node ! j))
         \<longrightarrow> peers (processBeacon beacon node) = peers node)"
proof -
  have len: "length (peers (processBeacons bs node)) = MAX_PEERS"
    using assms by (simp add: length_processBeacons)
  have cnt: "active_count (peers (processBeacons bs node)) \<le> MAX_PEERS"
    using active_count_le [of "peers (processBeacons bs node)"] len by simp
  have drop: "(\<forall>j<MAX_PEERS. is_active (peers node ! j) \<and> \<not> matches beacon (peers node ! j))
         \<longrightarrow> peers (processBeacon beacon node) = peers node"
    using processBeacon_no_match_full [of beacon node] by blast
  show ?thesis using len cnt drop by (simp add: MAX_PEERS_def)
qed

text \<open>
  The theorem at a full directory and a beacon from an identity that no slot carries.
\<close>

theorem peer_directory_capacity_witness:
  "length (peers full_directory) = MAX_PEERS
   \<and> active_count (peers full_directory) = 20
   \<and> peers (processBeacon (example_beacon [0, 0, 0, 0, 0, 0xBB]) full_directory)
       = peers full_directory
   \<and> length (peers (processBeacons [example_beacon [0, 0, 0, 0, 0, 0xBB]] full_directory)) = MAX_PEERS"
proof -
  have h: "length (peers full_directory) = MAX_PEERS"
    by (simp add: full_directory_def MAX_PEERS_def)
  have full: "\<forall>j<MAX_PEERS. is_active (peers full_directory ! j)
          \<and> \<not> matches (example_beacon [0, 0, 0, 0, 0, 0xBB]) (peers full_directory ! j)"
    by (simp add: full_directory_def MAX_PEERS_def example_peer_def example_beacon_def
          matches_def memcmp_eq_def NODE_ID_LENGTH_def)
  have cnt: "active_count (peers full_directory) = 20"
    by (simp add: full_directory_def active_count_def example_peer_def)
  show ?thesis
    using peer_directory_capacity [OF h, of "[example_beacon [0, 0, 0, 0, 0, 0xBB]]"
        "example_beacon [0, 0, 0, 0, 0, 0xBB]"] h full cnt
    by blast
qed

subsection \<open>A beacon from a known identity\<close>

text \<open>
  Claim C8, as the code has it. For every received beacon whose sender identity equals the
  identity bytes of some slot, exactly one slot is updated in place, the first such slot
  in scan order: its capability vector and last-seen timestamp are set from the beacon and
  it is marked active; its identity and its signal strength stay as they were, and every
  other slot is unchanged. When that slot was already active, the directory's count of
  active entries does not change.
\<close>

theorem beacon_from_known_identity:
  assumes "length (peers node) = MAX_PEERS"
    and "\<exists>j<MAX_PEERS. matches beacon (peers node ! j)"
  shows "\<exists>i<MAX_PEERS.
      matches beacon (peers node ! i)
    \<and> (\<forall>j<i. \<not> matches beacon (peers node ! j))
    \<and> peers (processBeacon beacon node) = (peers node)[i := update_slot beacon (peers node ! i)]
    \<and> (\<forall>k<MAX_PEERS. k \<noteq> i \<longrightarrow> peers (processBeacon beacon node) ! k = peers node ! k)
    \<and> last_seen (peers (processBeacon beacon node) ! i) = timestamp beacon
    \<and> capabilities (peers (processBeacon beacon node) ! i)
        = memcpy_array (capabilities (peers node ! i)) (beacon_capabilities beacon)
            AI_MODEL_OUTPUT_SIZE
    \<and> is_active (peers (processBeacon beacon node) ! i)
    \<and> mac_address (peers (processBeacon beacon node) ! i) = mac_address (peers node ! i)
    \<and> rssi (peers (processBeacon beacon node) ! i) = rssi (peers node ! i)
    \<and> (is_active (peers node ! i) \<longrightarrow>
         active_count (peers (processBeacon beacon node)) = active_count (peers node))"
proof -
  from processBeacon_match [OF assms(2)] obtain i where
    lt: "i < MAX_PEERS" and m: "matches beacon (peers node ! i)"
    and first: "\<forall>j<i. \<not> matches beacon (peers node ! j)"
    and eq: "peers (processBeacon beacon node)
               = (peers node)[i := update_slot beacon (peers node ! i)]"
    by blast
  have il: "i < length (peers node)" using lt assms(1) by simp
  have slot: "peers (processBeacon beacon node) ! i = update_slot beacon (peers node ! i)"
    using il by (simp add: eq)
  have others: "\<forall>k<MAX_PEERS. k \<noteq> i \<longrightarrow> peers (processBeacon beacon node) ! k = peers node ! k"
    by (simp add: eq)
  have cnt: "is_active (peers node ! i) \<longrightarrow>
         active_count (peers (processBeacon beacon node)) = active_count (peers node)"
  proof
    assume a: "is_active (peers node ! i)"
    have "is_active (update_slot beacon (peers node ! i))"
      by (simp add: update_slot_def)
    then show "active_count (peers (processBeacon beacon node)) = active_count (peers node)"
      using active_count_update [OF il, of "update_slot beacon (peers node ! i)"] a
      by (simp add: eq)
  qed
  have fields: "last_seen (peers (processBeacon beacon node) ! i) = timestamp beacon
    \<and> capabilities (peers (processBeacon beacon node) ! i)
        = memcpy_array (capabilities (peers node ! i)) (beacon_capabilities beacon)
            AI_MODEL_OUTPUT_SIZE
    \<and> is_active (peers (processBeacon beacon node) ! i)
    \<and> mac_address (peers (processBeacon beacon node) ! i) = mac_address (peers node ! i)
    \<and> rssi (peers (processBeacon beacon node) ! i) = rssi (peers node ! i)"
    unfolding slot by (simp add: update_slot_def)
  show ?thesis
    using lt m first eq others fields cnt by blast
qed

text \<open>
  The theorem at the full example directory and a beacon from the identity of slot 3.
\<close>

theorem beacon_from_known_identity_witness:
  "length (peers full_directory) = MAX_PEERS
   \<and> (\<exists>j<MAX_PEERS. matches (example_beacon [3, 0, 0, 0, 0, 0xAA]) (peers full_directory ! j))
   \<and> (\<exists>i<MAX_PEERS.
         peers (processBeacon (example_beacon [3, 0, 0, 0, 0, 0xAA]) full_directory)
           = (peers full_directory)
               [i := update_slot (example_beacon [3, 0, 0, 0, 0, 0xAA]) (peers full_directory ! i)]
       \<and> rssi (peers (processBeacon (example_beacon [3, 0, 0, 0, 0, 0xAA]) full_directory) ! i)
           = rssi (peers full_directory ! i))"
proof -
  have h: "length (peers full_directory) = MAX_PEERS"
    by (simp add: full_directory_def MAX_PEERS_def)
  have "3 < MAX_PEERS \<and> matches (example_beacon [3, 0, 0, 0, 0, 0xAA]) (peers full_directory ! 3)"
    by (simp add: full_directory_def MAX_PEERS_def example_peer_def example_beacon_def
          matches_def memcmp_eq_def NODE_ID_LENGTH_def)
  then have m: "\<exists>j<MAX_PEERS. matches (example_beacon [3, 0, 0, 0, 0, 0xAA]) (peers full_directory ! j)"
    by blast
  show ?thesis
    using beacon_from_known_identity [OF h m] h m by blast
qed

text \<open>
  Claim C8 as stated fails on two counts. \<^verbatim>\<open>processBeacon\<close> never assigns \<open>rssi\<close>
  (neither the packet nor the callback carries a signal strength), so the matched slot
  keeps its old value; and the first loop compares identities without looking at
  \<open>is_active\<close>, so a beacon that matches an inactive slot raises the count of active
  entries. Here all twenty slots are inactive and the beacon carries the identity bytes of
  slot 0.
\<close>

theorem beacon_from_known_identity_counterexample:
  "matches (example_beacon [0, 0, 0, 0, 0, 0xAA]) (peers idle_directory ! 0)
   \<and> rssi (peers idle_directory ! 0) = 0xD8
   \<and> rssi (peers (processBeacon (example_beacon [0, 0, 0, 0, 0, 0xAA]) idle_directory) ! 0) = 0xD8
   \<and> active_count (peers idle_directory) = 0
   \<and> active_count (peers (processBeacon (example_beacon [0, 0, 0, 0, 0, 0xAA]) idle_directory)) = 1"
  by code_simp

text \<open>
  Two beacons in a row from one identity: whatever the first one did (updated a slot,
  populated a free one, or was dropped), the second leaves the count of active entries
  where the first left it.
\<close>

lemma matches_update_slot [simp]: "matches b (update_slot b' p) = matches b p"
  by (simp add: matches_def update_slot_def)

lemma matches_populate_slot:
  "length (sender_id b) = NODE_ID_LENGTH \<Longrightarrow> matches b (populate_slot b p)"
  by (simp add: matches_def populate_slot_def memcmp_eq_def memcpy_array_def)

lemma first_beacon_leaves_identity_active:
  assumes len: "length (peers node) = MAX_PEERS"
    and wf: "length (sender_id b) = NODE_ID_LENGTH"
  shows "(\<forall>i<MAX_PEERS. matches b (peers (processBeacon b node) ! i)
             \<and> (\<forall>j<i. \<not> matches b (peers (processBeacon b node) ! j))
           \<longrightarrow> is_active (peers (processBeacon b node) ! i))
       \<and> ((\<forall>j<MAX_PEERS. \<not> matches b (peers (processBeacon b node) ! j))
           \<longrightarrow> (\<forall>j<MAX_PEERS. is_active (peers (processBeacon b node) ! j)))"
proof (cases "\<exists>j<MAX_PEERS. matches b (peers node ! j)")
  case True
  from processBeacon_match [OF True] obtain k where
    lt: "k < MAX_PEERS" and m: "matches b (peers node ! k)"
    and first: "\<forall>j<k. \<not> matches b (peers node ! j)"
    and eq: "peers (processBeacon b node) = (peers node)[k := update_slot b (peers node ! k)]"
    by blast
  have kl: "k < length (peers node)" using lt len by simp
  have at_k: "peers (processBeacon b node) ! k = update_slot b (peers node ! k)"
    using kl by (simp add: eq)
  have other: "\<And>j. j \<noteq> k \<Longrightarrow> peers (processBeacon b node) ! j = peers node ! j"
    by (simp add: eq)
  have mk: "matches b (peers (processBeacon b node) ! k)"
    using m by (simp add: at_k)
  have ak: "is_active (peers (processBeacon b node) ! k)"
    by (simp add: at_k update_slot_def)
  have "is_active (peers (processBeacon b node) ! i)"
    if "i < MAX_PEERS" "matches b (peers (processBeacon b node) ! i)"
       "\<forall>j<i. \<not> matches b (peers (processBeacon b node) ! j)" for i
  proof -
    have "\<not> k < i" using that(3) mk by blast
    moreover have "\<not> i < k"
    proof
      assume "i < k"
      then have "peers (processBeacon b node) ! i = peers node ! i" using other by simp
      then show False using that(2) first \<open>i < k\<close> by simp
    qed
    ultimately have "i = k" by simp
    then show ?thesis using ak by simp
  qed
  then show ?thesis using mk lt by blast
next
  case False
  then have nomatch: "\<forall>j<MAX_PEERS. \<not> matches b (peers node ! j)" by blast
  show ?thesis
  proof (cases "\<exists>j<MAX_PEERS. \<not> is_active (peers node ! j)")
    case True
    from processBeacon_no_match_free [OF nomatch True] obtain k where
      lt: "k < MAX_PEERS"
      and eq: "peers (processBeacon b node) = (peers node)[k := populate_slot b (peers node ! k)]"
      by blast
    have kl: "k < length (peers node)" using lt len by simp
    have at_k: "peers (processBeacon b node) ! k = populate_slot b (peers node ! k)"
      using kl by (simp add: eq)
    have other: "\<And>j. j \<noteq> k \<Longrightarrow> peers (processBeacon b node) ! j = peers node ! j"
      by (simp add: eq)
    have mk: "matches b (peers (processBeacon b node) ! k)"
      using matches_populate_slot [OF wf] by (simp add: at_k)
    have ak: "is_active (peers (processBeacon b node) ! k)"
      by (simp add: at_k populate_slot_def)
    have "is_active (peers (processBeacon b node) ! i)"
      if "i < MAX_PEERS" "matches b (peers (processBeacon b node) ! i)" for i
    proof (cases "i = k")
      case True
      then show ?thesis using ak by simp
    next
      case False
      then have "peers (processBeacon b node) ! i = peers node ! i" using other by simp
      then show ?thesis using that nomatch by simp
    qed
    then show ?thesis using mk lt by blast
  next
    case False
    then have allact: "\<forall>j<MAX_PEERS. is_active (peers node ! j)" by blast
    have "peers (processBeacon b node) = peers node"
      using processBeacon_no_match_full [OF nomatch allact] .
    then show ?thesis using nomatch allact by simp
  qed
qed

lemma second_beacon_same_identity:
  assumes len: "length (peers node) = MAX_PEERS"
    and wf: "length (sender_id b1) = NODE_ID_LENGTH"
    and same: "sender_id b2 = sender_id b1"
  shows "active_count (peers (processBeacon b2 (processBeacon b1 node)))
         = active_count (peers (processBeacon b1 node))"
proof -
  define n1 where "n1 = processBeacon b1 node"
  have m_eq: "\<And>p. matches b2 p = matches b1 p"
    using same by (simp add: matches_def)
  have len1: "length (peers n1) = MAX_PEERS"
    using len by (simp add: n1_def length_processBeacon)
  have K1: "\<And>i. i < MAX_PEERS \<Longrightarrow> matches b2 (peers n1 ! i) \<Longrightarrow>
               (\<forall>j<i. \<not> matches b2 (peers n1 ! j)) \<Longrightarrow> is_active (peers n1 ! i)"
    and K2: "(\<forall>j<MAX_PEERS. \<not> matches b2 (peers n1 ! j)) \<Longrightarrow>
               (\<forall>j<MAX_PEERS. is_active (peers n1 ! j))"
    using first_beacon_leaves_identity_active [OF len wf]
    unfolding n1_def m_eq by blast+
  have "active_count (peers (processBeacon b2 n1)) = active_count (peers n1)"
  proof (cases "\<exists>j<MAX_PEERS. matches b2 (peers n1 ! j)")
    case True
    from processBeacon_match [OF True] obtain i where
      lt: "i < MAX_PEERS" and m: "matches b2 (peers n1 ! i)"
      and first: "\<forall>j<i. \<not> matches b2 (peers n1 ! j)"
      and eq: "peers (processBeacon b2 n1) = (peers n1)[i := update_slot b2 (peers n1 ! i)]"
      by blast
    have act: "is_active (peers n1 ! i)" using K1 [OF lt m first] .
    have il: "i < length (peers n1)" using lt len1 by simp
    have "is_active (update_slot b2 (peers n1 ! i))" by (simp add: update_slot_def)
    then show ?thesis
      using active_count_update [OF il, of "update_slot b2 (peers n1 ! i)"] act
      by (simp add: eq)
  next
    case False
    then have nm: "\<forall>j<MAX_PEERS. \<not> matches b2 (peers n1 ! j)" by blast
    have "peers (processBeacon b2 n1) = peers n1"
      using processBeacon_no_match_full [OF nm K2 [OF nm]] .
    then show ?thesis by simp
  qed
  then show ?thesis by (simp add: n1_def)
qed

subsection \<open>The frame size guard\<close>

text \<open>
  Claim C9. For every frame delivered by the transport receive callback, if the frame's
  length differs from the fixed \<^verbatim>\<open>BeaconPacket\<close> size, the frame is discarded: the node
  state, peer table and log alike, is unchanged, so \<^verbatim>\<open>processBeacon\<close>, which always
  appends a log line, was not invoked. Only frames of exactly that size are processed.
  The callback is a total function of its arguments: no length makes it fail.
\<close>

theorem frame_size_guard:
  "(len \<noteq> sizeof_BeaconPacket \<longrightarrow>
      recv_cb sizeof_BeaconPacket beacon_of_bytes data len node = node)
   \<and> (len = sizeof_BeaconPacket \<longrightarrow>
      recv_cb sizeof_BeaconPacket beacon_of_bytes data len node
        = processBeacon (beacon_of_bytes data) node)
   \<and> esp_log (processBeacon (beacon_of_bytes data) node) \<noteq> esp_log node"
  by (simp add: recv_cb_def processBeacon_def split: prod.splits)

text \<open>
  The theorem at a three-byte frame and at a frame of the expected size, here 140.
\<close>

theorem frame_size_guard_witness:
  "(3 :: int) \<noteq> 140
   \<and> recv_cb 140 (\<lambda>data. example_beacon (take 6 data)) [1, 2, 3] 3 full_directory
       = full_directory
   \<and> recv_cb 140 (\<lambda>data. example_beacon (take 6 data)) (replicate 140 0) 140 full_directory
       = processBeacon (example_beacon (take 6 (replicate 140 0))) full_directory"
  using frame_size_guard [of 3 140 "\<lambda>data. example_beacon (take 6 data)" "[1, 2, 3]" full_directory]
    frame_size_guard [of 140 140 "\<lambda>data. example_beacon (take 6 data)" "replicate 140 0"
      full_directory]
  by simp

section \<open>Properties of the Storage Manager\<close>

lemma handleRead_requestId:
  "handleRead io request fs = Inr (r, fs') \<Longrightarrow> fr_requestId r = f_requestId request \<and> fs' = fs"
  by (auto simp: handleRead_def Let_def split: option.splits if_splits)

lemma handleWrite_requestId: "fr_requestId (fst (handleWrite io request fs)) = f_requestId request"
  by (simp add: handleWrite_def Let_def)

lemma fileTask_switch_requestId:
  assumes "f_operation request = READ \<or> f_operation request = WRITE"
    and "fileTask_switch io request response fs = Inr (r, fs')"
  shows "fr_requestId r = f_requestId request"
proof (cases "f_operation request = READ")
  case True
  then have "handleRead io request fs = Inr (r, fs')"
    using assms(2) by (simp add: fileTask_switch_def)
  then show ?thesis using handleRead_requestId by blast
next
  case False
  then have w: "f_operation request = WRITE" using assms(1) by simp
  have "handleWrite io request fs = (r, fs')"
    using assms(2) w by (simp add: fileTask_switch_def)
  then show ?thesis using handleWrite_requestId [of io request fs] by simp
qed

text \<open>
  \<^verbatim>\<open>handleRead\<close> throws exactly when the file opens and the buffer cannot be
  allocated.
\<close>

lemma handleRead_throws:
  "(handleRead io request fs = Inl e)
     = (\<exists>contents. fopen_ok io \<and> fs (filename request) = Some contents
          \<and> \<not> new_ok io (case ftell_pos io (length contents) of None \<Rightarrow> SIZE_MAX | Some p \<Rightarrow> p))"
  by (cases e) (auto simp: handleRead_def Let_def split: option.splits if_splits)



subsection \<open>The worker loop\<close>

lemma fileTask_Inl:
  "fileTask_switch io request response fs = Inl e
   \<Longrightarrow> fileTask ((io, request) # rest) response fs = ([], False, response, fs)"
  by simp

lemma fileTask_Inr:
  "fileTask_switch io request response fs = Inr (response', fs')
   \<Longrightarrow> fileTask ((io, request) # rest) response fs
         = (response' # fst (fileTask rest response' fs'), snd (fileTask rest response' fs'))"
  by (simp add: case_prod_unfold Let_def)

text \<open>
  The worker never sends more responses than it received requests, and as many when it
  is still running at the end. For \<^verbatim>\<open>READ\<close> and \<^verbatim>\<open>WRITE\<close> requests, the two kinds that
  the public methods enqueue, the responses sent carry the correlation ids of the first
  requests, in the order of submission; the worker keeps running when no allocation
  fails.
\<close>

lemma fileTask_length_le: "length (fst (fileTask reqs response fs)) \<le> length reqs"
proof (induction reqs arbitrary: response fs)
  case Nil
  then show ?case by simp
next
  case (Cons a reqs)
  obtain io request where a: "a = (io, request)" by (cases a)
  show ?case
  proof (cases "fileTask_switch io request response fs")
    case (Inl e)
    then show ?thesis by (simp add: a)
  next
    case (Inr p)
    obtain response' fs' where p: "p = (response', fs')" by (cases p)
    have step: "fileTask ((io, request) # reqs) response fs
         = (response' # fst (fileTask reqs response' fs'), snd (fileTask reqs response' fs'))"
      using Inr p by (intro fileTask_Inr) simp
    show ?thesis
      unfolding a step using Cons.IH [of response' fs'] by simp
  qed
qed

lemma fileTask_running_length:
  "fst (snd (fileTask reqs response fs)) \<Longrightarrow> length (fst (fileTask reqs response fs)) = length reqs"
proof (induction reqs arbitrary: response fs)
  case Nil
  then show ?case by simp
next
  case (Cons a reqs)
  obtain io request where a: "a = (io, request)" by (cases a)
  show ?case
  proof (cases "fileTask_switch io request response fs")
    case (Inl e)
    then show ?thesis using Cons.prems by (simp add: a)
  next
    case (Inr p)
    obtain response' fs' where p: "p = (response', fs')" by (cases p)
    have step: "fileTask ((io, request) # reqs) response fs
         = (response' # fst (fileTask reqs response' fs'), snd (fileTask reqs response' fs'))"
      using Inr p by (intro fileTask_Inr) simp
    have "fst (snd (fileTask reqs response' fs'))"
      using Cons.prems unfolding a step by simp
    then show ?thesis
      unfolding a step using Cons.IH [of response' fs'] by simp
  qed
qed

lemma fileTask_requestIds_prefix:
  "\<forall>(io, request) \<in> set reqs. f_operation request = READ \<or> f_operation request = WRITE
   \<Longrightarrow> map fr_requestId (fst (fileTask reqs response fs))
         = take (length (fst (fileTask reqs response fs)))
             (map (\<lambda>(io, request). f_requestId request) reqs)"
proof (induction reqs arbitrary: response fs)
  case Nil
  then show ?case by simp
next
  case (Cons a reqs)
  obtain io request where a: "a = (io, request)" by (cases a)
  have op: "f_operation request = READ \<or> f_operation request = WRITE"
    using Cons.prems a by simp
  show ?case
  proof (cases "fileTask_switch io request response fs")
    case (Inl e)
    then show ?thesis by (simp add: a)
  next
    case (Inr p)
    obtain response' fs' where p: "p = (response', fs')" by (cases p)
    have sw: "fileTask_switch io request response fs = Inr (response', fs')"
      using Inr p by simp
    have id: "fr_requestId response' = f_requestId request"
      using fileTask_switch_requestId [OF op sw] .
    have rest: "map fr_requestId (fst (fileTask reqs response' fs'))
         = take (length (fst (fileTask reqs response' fs')))
             (map (\<lambda>(io, request). f_requestId request) reqs)"
      using Cons.IH [of response' fs'] Cons.prems by simp
    have step: "fileTask ((io, request) # reqs) response fs
         = (response' # fst (fileTask reqs response' fs'), snd (fileTask reqs response' fs'))"
      using sw by (rule fileTask_Inr)
    show ?thesis
      unfolding a step using rest id by simp
  qed
qed

lemma fileTask_requestIds:
  assumes "\<forall>(io, request) \<in> set reqs. f_operation request = READ \<or> f_operation request = WRITE"
    and "fst (snd (fileTask reqs response fs))"
  shows "map fr_requestId (fst (fileTask reqs response fs))
           = map (\<lambda>(io, request). f_requestId request) reqs"
  using fileTask_requestIds_prefix [OF assms(1), of response fs]
    fileTask_running_length [OF assms(2)]
  by simp

lemma fileTask_keeps_running:
  "\<forall>(io, request) \<in> set reqs. \<forall>n. new_ok io n \<Longrightarrow> fst (snd (fileTask reqs response fs))"
proof (induction reqs arbitrary: response fs)
  case Nil
  then show ?case by simp
next
  case (Cons a reqs)
  obtain io request where a: "a = (io, request)" by (cases a)
  have ok: "\<forall>n. new_ok io n" using Cons.prems a by simp
  show ?case
  proof (cases "fileTask_switch io request response fs")
    case (Inl e)
    then have "handleRead io request fs = Inl e"
      by (auto simp: fileTask_switch_def split: FileOp.splits)
    then show ?thesis using ok by (simp add: handleRead_throws)
  next
    case (Inr p)
    obtain response' fs' where p: "p = (response', fs')" by (cases p)
    have step: "fileTask ((io, request) # reqs) response fs
         = (response' # fst (fileTask reqs response' fs'), snd (fileTask reqs response' fs'))"
      using Inr p by (intro fileTask_Inr) simp
    have "fst (snd (fileTask reqs response' fs'))"
      using Cons.IH [of response' fs'] Cons.prems by simp
    then show ?thesis
      unfolding a step by simp
  qed
qed

subsection \<open>Round trip\<close>




section \<open>Properties of the Model Runtime\<close>

lemma handleModelLoad_requestId:
  "response_requestId (fst (handleModelLoad env request tbl)) = requestId request"
  by (simp add: handleModelLoad_def catch_response_def split: option.splits)

lemma handleInference_requestId:
  "response_requestId (fst (handleInference env request tbl)) = requestId request"
  by (simp add: handleInference_def catch_response_def Let_def split: option.splits prod.splits)

text \<open>
  The three outcomes of \<^verbatim>\<open>handleModelLoad\<close>: already loaded, freshly loaded, failed.
  The table changes in the second only.
\<close>

lemma handleModelLoad_cases:
  assumes "handleModelLoad env request tbl = (r, tbl')"
  shows "(success r \<and> tbl' = tbl \<and> tbl (modelId request) \<noteq> None \<and> message r = ''Model already loaded'')
       \<or> (success r \<and> tbl (modelId request) = None \<and> message r = ''Model loaded successfully''
            \<and> (\<exists>context. tbl' = tbl(modelId request \<mapsto> context) \<and> state context = READY))
       \<or> (\<not> success r \<and> tbl' = tbl \<and> tbl (modelId request) = None \<and> response_state r = ERROR
            \<and> (message r = ''Failed to load model file'' \<and> loadModelFromStorage env (modelId request) = None
                \<or> message r = ''std::bad_alloc''
                \<or> message r = ''Failed to allocate tensors''))"
  using assms
  by (auto simp: handleModelLoad_def catch_response_def split: if_splits option.splits)

lemma handleInference_dom:
  "(snd (handleInference env request tbl) mid = None) = (tbl mid = None)"
  by (simp add: handleInference_def Let_def split: option.splits prod.splits)

lemma handleInference_not_loaded_iff:
  "(message (fst (handleInference env request tbl)) = ''Model not loaded'')
     = (tbl (modelId request) = None)"
  by (simp add: handleInference_def catch_response_def Let_def split: option.splits prod.splits)

lemma lifecycle_ok_empty: "lifecycle_ok Map.empty"
  by (simp add: lifecycle_ok_def)

lemma lifecycle_ok_handleModelLoad:
  "lifecycle_ok tbl \<Longrightarrow> lifecycle_ok (snd (handleModelLoad env request tbl))"
  by (auto simp: lifecycle_ok_def handleModelLoad_def split: option.splits if_splits)

lemma lifecycle_ok_handleInference:
  "lifecycle_ok tbl \<Longrightarrow> lifecycle_ok (snd (handleInference env request tbl))"
  by (auto simp: lifecycle_ok_def handleInference_def Let_def split: option.splits prod.splits if_splits)

lemmas example_defs =
  example_env_def example_model_def placeholder_env_def loadModelFromStorage_placeholder_def
  requestModelLoad_def requestInference_def loaded_table_def failed_table_def
  handleModelLoad_def handleInference_def catch_response_def memcpy_to_def read_bytes_def
  buffer_bytes_def Let_def

subsection \<open>LOAD\<close>

text \<open>
  Claim C5. \<^verbatim>\<open>LOAD\<close> is idempotent: for every model id, two consecutive \<^verbatim>\<open>LOAD(id)\<close>
  requests, the first succeeding, leave exactly one context stored for the id in the model
  table and both report success; the second succeeds immediately, without touching the
  table, because the id already has a context, which is in state \<^verbatim>\<open>READY\<close> or
  \<^verbatim>\<open>RUNNING\<close>.
\<close>

theorem load_idempotent:
  assumes "lifecycle_ok tbl"
    and "handleModelLoad env1 request1 tbl = (r1, tbl1)"
    and "success r1"
    and "modelId request2 = modelId request1"
    and "handleModelLoad env2 request2 tbl1 = (r2, tbl2)"
  shows "success r2
    \<and> message r2 = ''Model already loaded''
    \<and> response_requestId r1 = requestId request1
    \<and> response_requestId r2 = requestId request2
    \<and> tbl2 = tbl1
    \<and> (\<exists>context. tbl2 (modelId request1) = Some context
          \<and> (state context = READY \<or> state context = RUNNING))"
proof -
  have ok1: "lifecycle_ok tbl1"
    using lifecycle_ok_handleModelLoad [OF assms(1), of env1 request1] assms(2) by simp
  have stored: "tbl1 (modelId request1) \<noteq> None"
    using handleModelLoad_cases [OF assms(2)] assms(3) by auto
  then obtain ctx where c: "tbl1 (modelId request1) = Some ctx" by blast
  have st: "state ctx = READY \<or> state ctx = RUNNING"
    using ok1 c by (auto simp: lifecycle_ok_def)
  have second: "success r2 \<and> message r2 = ''Model already loaded'' \<and> tbl2 = tbl1"
    using assms(5) stored assms(4) by (auto simp: handleModelLoad_def)
  have id1: "response_requestId r1 = requestId request1"
    using handleModelLoad_requestId [of env1 request1 tbl] assms(2) by simp
  have id2: "response_requestId r2 = requestId request2"
    using handleModelLoad_requestId [of env2 request2 tbl1] assms(5) by simp
  show ?thesis using second id1 id2 c st by simp
qed

text \<open>
  The theorem at two loads of \<open>''m''\<close> into the empty table.
\<close>

theorem load_idempotent_witness:
  "lifecycle_ok Map.empty
   \<and> success (fst (handleModelLoad example_env (requestModelLoad ''m'' 1) Map.empty))
   \<and> success (fst (handleModelLoad example_env (requestModelLoad ''m'' 2) loaded_table))
   \<and> message (fst (handleModelLoad example_env (requestModelLoad ''m'' 2) loaded_table))
        = ''Model already loaded''
   \<and> snd (handleModelLoad example_env (requestModelLoad ''m'' 2) loaded_table) = loaded_table"
proof -
  have h1: "lifecycle_ok Map.empty" by (simp add: lifecycle_ok_def)
  have h2: "handleModelLoad example_env (requestModelLoad ''m'' 1) Map.empty
              = (fst (handleModelLoad example_env (requestModelLoad ''m'' 1) Map.empty), loaded_table)"
    by (simp add: loaded_table_def)
  have h3: "success (fst (handleModelLoad example_env (requestModelLoad ''m'' 1) Map.empty))"
    by (simp add: example_defs)
  have h4: "modelId (requestModelLoad ''m'' 2) = modelId (requestModelLoad ''m'' 1)"
    by (simp add: requestModelLoad_def)
  have h5: "handleModelLoad example_env (requestModelLoad ''m'' 2) loaded_table
              = (fst (handleModelLoad example_env (requestModelLoad ''m'' 2) loaded_table),
                 snd (handleModelLoad example_env (requestModelLoad ''m'' 2) loaded_table))"
    by simp
  show ?thesis
    using load_idempotent [OF h1 h2 h3 h4 h5] h1 h3 by simp
qed

text \<open>
  Claim C10. \<^verbatim>\<open>LOAD\<close> failure is atomic with respect to the model table: for every
  model id with no stored context, if a \<^verbatim>\<open>LOAD(id)\<close> request fails (the model cannot be
  resolved, the arena cannot be allocated, or tensor allocation fails), the model table is
  unchanged. No context, in particular none in state \<^verbatim>\<open>ERROR\<close>, is stored for the id,
  so a later \<^verbatim>\<open>LOAD(id)\<close> starts from the same table.
\<close>

theorem load_failure_atomic:
  assumes "tbl (modelId request) = None"
    and "handleModelLoad env request tbl = (r, tbl')"
    and "\<not> success r"
  shows "tbl' = tbl
    \<and> tbl' (modelId request) = None
    \<and> response_state r = ERROR
    \<and> (message r = ''Failed to load model file'' \<or> message r = ''std::bad_alloc''
         \<or> message r = ''Failed to allocate tensors'')"
  using handleModelLoad_cases [OF assms(2)] assms(1,3) by auto

text \<open>
  The theorem at the storage placeholder of the source, which resolves no model.
\<close>

theorem load_failure_atomic_witness:
  "(Map.empty :: model_table) (modelId (requestModelLoad ''m'' 1)) = None
   \<and> \<not> success (fst (handleModelLoad placeholder_env (requestModelLoad ''m'' 1) Map.empty))
   \<and> snd (handleModelLoad placeholder_env (requestModelLoad ''m'' 1) Map.empty) = Map.empty
   \<and> message (fst (handleModelLoad placeholder_env (requestModelLoad ''m'' 1) Map.empty))
        = ''Failed to load model file''"
proof -
  have h1: "(Map.empty :: model_table) (modelId (requestModelLoad ''m'' 1)) = None" by simp
  have h2: "handleModelLoad placeholder_env (requestModelLoad ''m'' 1) Map.empty
              = (fst (handleModelLoad placeholder_env (requestModelLoad ''m'' 1) Map.empty),
                 snd (handleModelLoad placeholder_env (requestModelLoad ''m'' 1) Map.empty))"
    by simp
  have h3: "\<not> success (fst (handleModelLoad placeholder_env (requestModelLoad ''m'' 1) Map.empty))"
    by (simp add: example_defs)
  have msg: "message (fst (handleModelLoad placeholder_env (requestModelLoad ''m'' 1) Map.empty))
        = ''Failed to load model file''"
    by (simp add: example_defs)
  show ?thesis
    using load_failure_atomic [OF h1 h2 h3] h3 msg by simp
qed

subsection \<open>RUN\<close>

text \<open>
  Claim C3, as the code has it. For every model id, when the engine invocation of a
  \<^verbatim>\<open>RUN(id, input)\<close> request returns a non-success result, the request fails with
  ``Inference failed'' and the response reports the state \<^verbatim>\<open>ERROR\<close>. The context stays
  stored for the id, with its model, and other ids are untouched. Both handlers test only
  whether the table holds a context for the id: a later \<^verbatim>\<open>LOAD(id)\<close> reports success
  (``Model already loaded'') and a later \<^verbatim>\<open>RUN(id)\<close> is not refused as not loaded but
  handed to the engine again.
\<close>

theorem inference_failure:
  assumes "tbl (modelId request) = Some context"
    and "fst (Invoke (model context)
               (memcpy_to (tensorArena context) (data_raw (input0 (model context)))
                  (buffer_bytes (inputData request)) (inputLength request))) \<noteq> kTfLiteOk"
    and "handleInference env request tbl = (r, tbl')"
  shows "\<not> success r
    \<and> message r = ''Inference failed''
    \<and> response_state r = ERROR
    \<and> response_requestId r = requestId request
    \<and> (\<exists>context'. tbl' (modelId request) = Some context' \<and> model context' = model context)
    \<and> (\<forall>mid. mid \<noteq> modelId request \<longrightarrow> tbl' mid = tbl mid)
    \<and> (\<forall>env2 request2. modelId request2 = modelId request \<longrightarrow>
          success (fst (handleModelLoad env2 request2 tbl'))
          \<and> message (fst (handleModelLoad env2 request2 tbl')) = ''Model already loaded''
          \<and> message (fst (handleInference env2 request2 tbl')) \<noteq> ''Model not loaded'')"
proof -
  obtain status arena where inv: "Invoke (model context)
               (memcpy_to (tensorArena context) (data_raw (input0 (model context)))
                  (buffer_bytes (inputData request)) (inputLength request)) = (status, arena)"
    by (cases "Invoke (model context)
               (memcpy_to (tensorArena context) (data_raw (input0 (model context)))
                  (buffer_bytes (inputData request)) (inputLength request))")
  have bad: "status \<noteq> kTfLiteOk" using assms(2) inv by simp
  have r: "r = catch_response ''Inference failed'' request"
    and t: "tbl' = tbl(modelId request \<mapsto> context\<lparr>state := RUNNING, tensorArena := arena\<rparr>)"
    using assms(1,3) inv bad by (simp_all add: handleInference_def Let_def)
  have later: "\<forall>env2 request2. modelId request2 = modelId request \<longrightarrow>
          success (fst (handleModelLoad env2 request2 tbl'))
          \<and> message (fst (handleModelLoad env2 request2 tbl')) = ''Model already loaded''
          \<and> message (fst (handleInference env2 request2 tbl')) \<noteq> ''Model not loaded''"
    by (simp add: t handleModelLoad_def handleInference_def catch_response_def Let_def
          split: prod.splits option.splits)
  show ?thesis
    using later by (simp add: r t catch_response_def)
qed

text \<open>
  The theorem at the loaded example table and an input whose first byte is zero.
\<close>

theorem inference_failure_witness:
  "loaded_table (modelId (requestInference ''m'' [0, 0, 0, 0] 4 2))
     = Some \<lparr>model = example_model, tensorArena = (\<lambda>a. 0), tensorArenaSize = 32 * 1024, state = READY\<rparr>
   \<and> fst (Invoke example_model
            (memcpy_to (\<lambda>a. 0) (data_raw (input0 example_model))
               (buffer_bytes (inputData (requestInference ''m'' [0, 0, 0, 0] 4 2)))
               (inputLength (requestInference ''m'' [0, 0, 0, 0] 4 2)))) \<noteq> kTfLiteOk
   \<and> \<not> success (fst (handleInference example_env (requestInference ''m'' [0, 0, 0, 0] 4 2) loaded_table))
   \<and> message (fst (handleInference example_env (requestInference ''m'' [0, 0, 0, 0] 4 2) loaded_table))
       = ''Inference failed''
   \<and> response_state (fst (handleInference example_env (requestInference ''m'' [0, 0, 0, 0] 4 2) loaded_table))
       = ERROR"
proof -
  define ctx :: ModelContext where
    "ctx = \<lparr>model = example_model, tensorArena = (\<lambda>a. 0), tensorArenaSize = 32 * 1024, state = READY\<rparr>"
  have h1: "loaded_table (modelId (requestInference ''m'' [0, 0, 0, 0] 4 2)) = Some ctx"
    by (simp add: ctx_def example_env_def requestModelLoad_def requestInference_def
          loaded_table_def handleModelLoad_def example_model_def)
  have h2: "fst (Invoke (model ctx)
            (memcpy_to (tensorArena ctx) (data_raw (input0 (model ctx)))
               (buffer_bytes (inputData (requestInference ''m'' [0, 0, 0, 0] 4 2)))
               (inputLength (requestInference ''m'' [0, 0, 0, 0] 4 2)))) \<noteq> kTfLiteOk"
    by (simp add: ctx_def example_model_def requestInference_def memcpy_to_def buffer_bytes_def)
  have h3: "handleInference example_env (requestInference ''m'' [0, 0, 0, 0] 4 2) loaded_table
      = (fst (handleInference example_env (requestInference ''m'' [0, 0, 0, 0] 4 2) loaded_table),
         snd (handleInference example_env (requestInference ''m'' [0, 0, 0, 0] 4 2) loaded_table))"
    by simp
  show ?thesis
    using inference_failure [OF h1 h2 h3] h1 h2 by (simp add: ctx_def)
qed

text \<open>
  Claim C3 as stated fails. After a \<^verbatim>\<open>LOAD\<close> that succeeds and a \<^verbatim>\<open>RUN\<close> that fails
  in the engine, the stored context is in state \<^verbatim>\<open>RUNNING\<close>, not \<^verbatim>\<open>ERROR\<close>; the next
  \<^verbatim>\<open>RUN\<close> on the same id succeeds, and so does the next \<^verbatim>\<open>LOAD\<close>.
\<close>

theorem inference_failure_counterexample:
  "success (fst (handleModelLoad example_env (requestModelLoad ''m'' 1) Map.empty))
   \<and> \<not> success (fst (handleInference example_env (requestInference ''m'' [0, 0, 0, 0] 4 2) loaded_table))
   \<and> message (fst (handleInference example_env (requestInference ''m'' [0, 0, 0, 0] 4 2) loaded_table))
       = ''Inference failed''
   \<and> state (the (failed_table ''m'')) = RUNNING
   \<and> state (the (failed_table ''m'')) \<noteq> ERROR
   \<and> success (fst (handleInference example_env (requestInference ''m'' [1, 2, 3, 4] 4 3) failed_table))
   \<and> message (fst (handleInference example_env (requestInference ''m'' [1, 2, 3, 4] 4 3) failed_table))
       = ''Inference successful''
   \<and> success (fst (handleModelLoad example_env (requestModelLoad ''m'' 4) failed_table))"
  by (simp add: example_defs)

text \<open>
  Claim C1. The claim asks that \<^verbatim>\<open>RUN\<close> compare the caller's input length with the size
  of the input tensor and fail with ``input size mismatch'' when they differ.
  \<^verbatim>\<open>handleInference\<close> makes no such test: no request yields that message, and the copy
  writes \<open>inputLength\<close> bytes whatever the tensor holds. With a four-byte input tensor
  and a six-byte input, the request succeeds and the two arena bytes behind the tensor
  are overwritten.
\<close>

theorem run_input_copy_unchecked:
  "message (fst (handleInference env request tbl)) \<noteq> ''input size mismatch''
   \<and> bytes (input0 (model (the (loaded_table ''m'')))) = 4
   \<and> inputLength (requestInference ''m'' [1, 2, 3, 4, 5, 6] 6 3) = 6
   \<and> success (fst (handleInference example_env (requestInference ''m'' [1, 2, 3, 4, 5, 6] 6 3) loaded_table))
   \<and> message (fst (handleInference example_env (requestInference ''m'' [1, 2, 3, 4, 5, 6] 6 3) loaded_table))
       = ''Inference successful''
   \<and> tensorArena (the (loaded_table ''m'')) 4 = 0
   \<and> tensorArena (the (loaded_table ''m'')) 5 = 0
   \<and> tensorArena (the (snd (handleInference example_env
                              (requestInference ''m'' [1, 2, 3, 4, 5, 6] 6 3) loaded_table) ''m'')) 4 = 5
   \<and> tensorArena (the (snd (handleInference example_env
                              (requestInference ''m'' [1, 2, 3, 4, 5, 6] 6 3) loaded_table) ''m'')) 5 = 6"
proof -
  have general: "message (fst (handleInference env request tbl)) \<noteq> ''input size mismatch''"
    by (simp add: handleInference_def catch_response_def Let_def split: option.splits prod.splits)
  have concrete: "bytes (input0 (model (the (loaded_table ''m'')))) = 4
   \<and> inputLength (requestInference ''m'' [1, 2, 3, 4, 5, 6] 6 3) = 6
   \<and> success (fst (handleInference example_env (requestInference ''m'' [1, 2, 3, 4, 5, 6] 6 3) loaded_table))
   \<and> message (fst (handleInference example_env (requestInference ''m'' [1, 2, 3, 4, 5, 6] 6 3) loaded_table))
       = ''Inference successful''
   \<and> tensorArena (the (loaded_table ''m'')) 4 = 0
   \<and> tensorArena (the (loaded_table ''m'')) 5 = 0
   \<and> tensorArena (the (snd (handleInference example_env
                              (requestInference ''m'' [1, 2, 3, 4, 5, 6] 6 3) loaded_table) ''m'')) 4 = 5
   \<and> tensorArena (the (snd (handleInference example_env
                              (requestInference ''m'' [1, 2, 3, 4, 5, 6] 6 3) loaded_table) ''m'')) 5 = 6"
    by (simp add: example_defs)
  show ?thesis using general concrete by blast
qed

subsection \<open>The worker loop\<close>

lemma fst_modelTask_Cons:
  "fst (modelTask u ((env, request) # rest) response tbl)
     = fst (modelTask_switch u env request response tbl)
       # fst (modelTask u rest (fst (modelTask_switch u env request response tbl))
                              (snd (modelTask_switch u env request response tbl)))"
  by (simp add: case_prod_unfold Let_def)

lemma table_modelTask_Cons:
  "snd (snd (modelTask u ((env, request) # rest) response tbl))
     = snd (snd (modelTask u rest (fst (modelTask_switch u env request response tbl))
                                  (snd (modelTask_switch u env request response tbl))))"
  by (simp add: case_prod_unfold Let_def)

text \<open>
  The worker sends one response per request it receives, and for \<^verbatim>\<open>LOAD\<close> and
  \<^verbatim>\<open>RUN\<close> requests, the two kinds that the public methods enqueue, the responses carry
  the requests' correlation ids in the order of submission.
\<close>

lemma modelTask_length: "length (fst (modelTask u reqs response tbl)) = length reqs"
proof (induction reqs arbitrary: response tbl)
  case Nil
  then show ?case by simp
next
  case (Cons a reqs)
  obtain env request where a: "a = (env, request)" by (cases a)
  show ?case unfolding a fst_modelTask_Cons by (simp add: Cons.IH)
qed

lemma modelTask_requestIds:
  "\<forall>(env, request) \<in> set reqs. operation request = LOAD \<or> operation request = RUN
   \<Longrightarrow> map response_requestId (fst (modelTask u reqs response tbl))
         = map (\<lambda>(env, request). requestId request) reqs"
proof (induction reqs arbitrary: response tbl)
  case Nil
  then show ?case by simp
next
  case (Cons a reqs)
  obtain env request where a: "a = (env, request)" by (cases a)
  have op: "operation request = LOAD \<or> operation request = RUN"
    using Cons.prems a by simp
  have id: "response_requestId (fst (modelTask_switch u env request response tbl)) = requestId request"
    using op handleModelLoad_requestId [of env request tbl]
      handleInference_requestId [of env request tbl]
    by (auto simp: modelTask_switch_def)
  have rest: "\<And>response' tbl'. map response_requestId (fst (modelTask u reqs response' tbl'))
                = map (\<lambda>(env, request). requestId request) reqs"
    using Cons.IH Cons.prems by simp
  show ?case
    unfolding a fst_modelTask_Cons using rest id by simp
qed

text \<open>
  An id without a context stays without one as long as no \<^verbatim>\<open>LOAD\<close> of it succeeds.
\<close>

lemma modelTask_switch_keeps_unloaded:
  assumes "operation request = LOAD \<or> operation request = RUN"
    and "tbl mid = None"
    and "\<not> (operation request = LOAD \<and> modelId request = mid
            \<and> success (fst (modelTask_switch u env request response tbl)))"
  shows "snd (modelTask_switch u env request response tbl) mid = None"
proof (cases "operation request = LOAD")
  case True
  obtain r tbl' where h: "handleModelLoad env request tbl = (r, tbl')"
    by (cases "handleModelLoad env request tbl")
  have sw: "modelTask_switch u env request response tbl = (r, tbl')"
    using True h by (simp add: modelTask_switch_def)
  have "tbl' mid = None"
    using handleModelLoad_cases [OF h] assms(2,3) True sw by auto
  then show ?thesis by (simp add: sw)
next
  case False
  then have run: "operation request = RUN" using assms(1) by simp
  have "modelTask_switch u env request response tbl = handleInference env request tbl"
    using run by (simp add: modelTask_switch_def)
  then show ?thesis using handleInference_dom [of env request tbl mid] assms(2) by simp
qed

lemma modelTask_keeps_unloaded:
  "\<forall>(env, request) \<in> set reqs. operation request = LOAD \<or> operation request = RUN \<Longrightarrow>
   tbl mid = None \<Longrightarrow>
   \<forall>(request, sent) \<in> set (zip (map snd reqs) (fst (modelTask u reqs response tbl))).
      \<not> (operation request = LOAD \<and> modelId request = mid \<and> success sent) \<Longrightarrow>
   snd (snd (modelTask u reqs response tbl)) mid = None"
proof (induction reqs arbitrary: response tbl)
  case Nil
  then show ?case by simp
next
  case (Cons a reqs)
  obtain env request where a: "a = (env, request)" by (cases a)
  define r' where "r' = fst (modelTask_switch u env request response tbl)"
  define tbl' where "tbl' = snd (modelTask_switch u env request response tbl)"
  have op: "operation request = LOAD \<or> operation request = RUN"
    using Cons.prems(1) a by simp
  have hist: "\<not> (operation request = LOAD \<and> modelId request = mid \<and> success r')"
    and hist_rest: "\<forall>(request, sent) \<in> set (zip (map snd reqs) (fst (modelTask u reqs r' tbl'))).
      \<not> (operation request = LOAD \<and> modelId request = mid \<and> success sent)"
    using Cons.prems(3) unfolding a fst_modelTask_Cons r'_def tbl'_def by simp_all
  have t: "tbl' mid = None"
    unfolding tbl'_def
    using modelTask_switch_keeps_unloaded [of request tbl mid u env response] op Cons.prems(2)
      hist r'_def by simp
  have "snd (snd (modelTask u reqs r' tbl')) mid = None"
    by (rule Cons.IH) (use Cons.prems(1) t hist_rest in simp_all)
  then show ?case
    unfolding a table_modelTask_Cons r'_def tbl'_def .
qed

text \<open>
  Claim C4, as the code has it. For every model id, a \<^verbatim>\<open>RUN(id, input)\<close> request
  fails with ``Model not loaded'' exactly when the model table holds no context for the
  id, whatever the lifecycle state of a stored context. In particular, after any sequence
  of \<^verbatim>\<open>LOAD\<close> and \<^verbatim>\<open>RUN\<close> requests served from the empty table in which no
  \<^verbatim>\<open>LOAD(id)\<close> succeeded, \<^verbatim>\<open>RUN(id)\<close> fails with that message.
\<close>

theorem run_model_not_loaded:
  "((message (fst (handleInference env request tbl)) = ''Model not loaded'')
      = (tbl (modelId request) = None))
   \<and> ((\<forall>(env', request') \<in> set reqs. operation request' = LOAD \<or> operation request' = RUN)
        \<and> (\<forall>(request', sent) \<in> set (zip (map snd reqs) (fst (modelTask u reqs response Map.empty))).
              \<not> (operation request' = LOAD \<and> modelId request' = modelId request \<and> success sent))
       \<longrightarrow> message (fst (handleInference env request
                           (snd (snd (modelTask u reqs response Map.empty)))))
             = ''Model not loaded'')"
proof -
  have a: "(message (fst (handleInference env request tbl)) = ''Model not loaded'')
      = (tbl (modelId request) = None)"
    by (rule handleInference_not_loaded_iff)
  have b: "message (fst (handleInference env request
                           (snd (snd (modelTask u reqs response Map.empty)))))
             = ''Model not loaded''"
    if "\<forall>(env', request') \<in> set reqs. operation request' = LOAD \<or> operation request' = RUN"
      and "\<forall>(request', sent) \<in> set (zip (map snd reqs) (fst (modelTask u reqs response Map.empty))).
              \<not> (operation request' = LOAD \<and> modelId request' = modelId request \<and> success sent)"
  proof -
    have "snd (snd (modelTask u reqs response Map.empty)) (modelId request) = None"
      using modelTask_keeps_unloaded [of reqs Map.empty "modelId request" u response] that
      by simp
    then show ?thesis by (simp add: handleInference_not_loaded_iff)
  qed
  show ?thesis using a b by blast
qed

text \<open>
  The theorem after a \<^verbatim>\<open>LOAD\<close> that fails on the storage placeholder, and at the loaded
  example table.
\<close>

theorem run_model_not_loaded_witness:
  "message (fst (handleInference example_env (requestInference ''m'' [1, 2, 3, 4] 4 2)
        (snd (snd (modelTask (\<lambda>request response tbl. (response, tbl))
                     [(placeholder_env, requestModelLoad ''m'' 1)]
                     example_model_response Map.empty)))))
       = ''Model not loaded''
   \<and> loaded_table (modelId (requestInference ''m'' [1, 2, 3, 4] 4 2)) \<noteq> None
   \<and> message (fst (handleInference example_env (requestInference ''m'' [1, 2, 3, 4] 4 2) loaded_table))
       \<noteq> ''Model not loaded''"
proof -
  have h1: "\<forall>(env', request') \<in> set [(placeholder_env, requestModelLoad ''m'' 1)].
       operation request' = LOAD \<or> operation request' = RUN"
    by (simp add: requestModelLoad_def)
  have h2: "\<forall>(request', sent) \<in> set (zip (map snd [(placeholder_env, requestModelLoad ''m'' 1)])
          (fst (modelTask (\<lambda>request response tbl. (response, tbl))
                  [(placeholder_env, requestModelLoad ''m'' 1)]
                  example_model_response Map.empty))).
         \<not> (operation request' = LOAD \<and> modelId request' = modelId (requestInference ''m'' [1, 2, 3, 4] 4 2)
            \<and> success sent)"
    by (simp add: modelTask_switch_def example_defs)
  have h3: "loaded_table (modelId (requestInference ''m'' [1, 2, 3, 4] 4 2)) \<noteq> None"
    by (simp add: example_defs)
  show ?thesis
    using run_model_not_loaded [of example_env "requestInference ''m'' [1, 2, 3, 4] 4 2" loaded_table
        "[(placeholder_env, requestModelLoad ''m'' 1)]" "\<lambda>request response tbl. (response, tbl)"
        example_model_response]
      h1 h2 h3
    by blast
qed

text \<open>
  Claim C4 as stated fails. After a \<^verbatim>\<open>LOAD\<close> that succeeds and a \<^verbatim>\<open>RUN\<close> that fails
  in the engine, the id has a context that is not in state \<^verbatim>\<open>READY\<close>, so no Ready
  context exists for it; yet the next \<^verbatim>\<open>RUN\<close> is handed to the engine and fails there,
  not with ``Model not loaded''.
\<close>

theorem run_model_not_loaded_counterexample:
  "success (fst (handleModelLoad example_env (requestModelLoad ''m'' 1) Map.empty))
   \<and> message (fst (handleInference example_env (requestInference ''m'' [0, 0, 0, 0] 4 2) loaded_table))
       = ''Inference failed''
   \<and> failed_table ''m'' \<noteq> None
   \<and> state (the (failed_table ''m'')) \<noteq> READY
   \<and> message (fst (handleInference example_env (requestInference ''m'' [0, 0, 0, 0] 4 3) failed_table))
       = ''Inference failed''
   \<and> message (fst (handleInference example_env (requestInference ''m'' [0, 0, 0, 0] 4 3) failed_table))
       \<noteq> ''Model not loaded''"
  by (simp add: example_defs)

section \<open>Response correlation in the two workers\<close>

text \<open>
  Claim C2. The claim asks that every request a worker accepts be answered by exactly one
  response carrying the request's correlation id, in submission order. The Model Runtime
  does so for the requests it can be sent (\<open>modelTask_length\<close>,
  \<open>modelTask_requestIds\<close>): its handlers catch every \<^verbatim>\<open>std::exception\<close> and answer
  with a failed response. The Storage Manager does so only as long as it runs
  (\<open>fileTask_requestIds\<close>): \<^verbatim>\<open>handleRead\<close> allocates its buffer outside any
  \<^verbatim>\<open>try\<close> block. Here a three-byte file is written (id 6) and read twice (ids 7 and 8)
  on a heap that has no three-byte block for the first read: the worker answers request
  6 and then stops, and requests 7 and 8 get no response. The same failure in the Model
  Runtime, a \<^verbatim>\<open>LOAD\<close> with id 7 whose arena cannot be allocated, is answered with id 7.
\<close>

theorem worker_read_allocation_failure:
  "fst (fileTask [(example_io, requestWrite ''model.bin'' [1, 2, 3] 3 6),
                  (low_heap_io, requestRead ''model.bin'' 7),
                  (example_io, requestRead ''model.bin'' 8)] example_response Map.empty)
     = [\<lparr>fr_success = True, fr_message = ''Success'', fr_data = None, fr_length = 3,
         fr_requestId = 6\<rparr>]
   \<and> fst (snd (fileTask [(example_io, requestWrite ''model.bin'' [1, 2, 3] 3 6),
                  (low_heap_io, requestRead ''model.bin'' 7),
                  (example_io, requestRead ''model.bin'' 8)] example_response Map.empty)) = False
   \<and> handleRead low_heap_io (requestRead ''model.bin'' 7) [''model.bin'' \<mapsto> [1, 2, 3]]
       = Inl bad_alloc
   \<and> fst (modelTask (\<lambda>request response tbl. (response, tbl))
             [(no_heap_env, requestModelLoad ''m'' 7)] example_model_response Map.empty)
       = [\<lparr>success = False, message = ''std::bad_alloc'', outputData = None, outputLength = 0,
           response_requestId = 7, response_state = ERROR\<rparr>]"
  by (simp add: fileTask_switch_def requestWrite_def requestRead_def handleWrite_def
        handleRead_def example_io_def low_heap_io_def buffer_bytes_def Let_def
        modelTask_switch_def handleModelLoad_def catch_response_def requestModelLoad_def
        no_heap_env_def example_env_def)

end
